theory Spec2Isabelle
  imports Main "HOL-Library.Sublist"
begin

section \<open>The revision controller of pkg/controller/revision/controller.go\<close>

text \<open>
  A shallow embedding of the Revision controller: its sync handler, the create and the
  delete path, the four child reconcilers and deleters, and the status updater.
  Every call into the Kubernetes API is made through a client that is a parameter of the
  model (the Go code takes the clients as interfaces), threads an abstract world through
  the call, and is recorded, with its answer, in the list of calls of the state.
  Log lines are recorded in a second list.
\<close>

subsection \<open>Errors\<close>

text \<open>
  A Go \<open>error\<close> value. \<open>apierrs.IsNotFound\<close> holds of an API status error whose
  reason is NotFound, and of no other error. A nil error is \<open>None\<close>.
\<close>

datatype StatusReason =
    StatusReasonUnknown
  | StatusReasonNotFound
  | StatusReasonAlreadyExists
  | StatusReasonConflict
  | StatusReasonForbidden
  | StatusReasonServerTimeout

datatype error =
    StatusError StatusReason string
  | ErrorString string

fun IsNotFound :: "error \<Rightarrow> bool" where
  "IsNotFound (StatusError r m) = (r = StatusReasonNotFound)"
| "IsNotFound (ErrorString m) = False"

subsection \<open>API objects\<close>

type_synonym Time = nat

record OwnerReference =
  RefAPIVersion :: string
  RefKind :: string
  RefName :: string
  RefUID :: string
  RefController :: "bool option"
  RefBlockOwnerDeletion :: "bool option"

record ObjectMeta =
  Name :: string
  Namespace :: string
  UID :: string
  Labels :: "(string \<times> string) list"
  DeletionTimestamp :: "Time option"
  Finalizers :: "string list"
  OwnerReferences :: "OwnerReference list"

text \<open>The zero value of \<open>metav1.ObjectMeta\<close> with a name and a namespace filled in.\<close>

definition newObjectMeta :: "string \<Rightarrow> string \<Rightarrow> ObjectMeta" where
  "newObjectMeta n ns =
     \<lparr>Name = n, Namespace = ns, UID = [], Labels = [], DeletionTimestamp = None,
      Finalizers = [], OwnerReferences = []\<rparr>"

record RevisionCondition =
  CondType :: string
  CondStatus :: string
  CondReason :: string

record RevisionSpec =
  SpecService :: string

record RevisionStatus =
  ServiceName :: string
  Conditions :: "RevisionCondition list"

text \<open>
  \<open>v1alpha1.Revision\<close>: the object metadata (embedded in Go, so that \<open>u.Name\<close> is
  \<open>Name (ObjectMeta u)\<close>), the spec and the status block.
\<close>

record Revision =
  ObjectMeta :: ObjectMeta
  Spec :: RevisionSpec
  Status :: RevisionStatus

text \<open>
  The kinds of object the controller reads and writes through the Kubernetes clientset,
  and an object of one of them. The specs of pods, deployments, autoscalers and services
  are built by constructors that live in other files; their type is the parameter
  \<open>'b\<close>. A deployment carries its own spec and the pod spec of its template.
\<close>

datatype Kind = Pod | Deployment | HorizontalPodAutoscaler | ConfigMap | Service

datatype 'b Payload =
    PodPayload 'b
  | DeploymentPayload 'b 'b
  | AutoscalerPayload 'b
  | ConfigMapPayload "(string \<times> string) list"
  | ServicePayload 'b

record 'b KObject =
  Meta :: ObjectMeta
  Payload :: "'b Payload"

datatype DeletionPropagation =
    DeletePropagationOrphan
  | DeletePropagationBackground
  | DeletePropagationForeground

record DeleteOptions =
  PropagationPolicy :: "DeletionPropagation option"

subsection \<open>Clients, state and effects\<close>

text \<open>
  The clients held by \<open>RevisionControllerImpl\<close>. Each call takes the world and returns
  its answer and the world after the call. The lister reads the local cache and changes
  nothing.
\<close>

record ('w, 'b) KubernetesInterface =
  ResourceGet :: "Kind \<Rightarrow> string \<Rightarrow> string \<Rightarrow> 'w \<Rightarrow> (error + 'b KObject) \<times> 'w"
  ResourceCreate :: "Kind \<Rightarrow> string \<Rightarrow> 'b KObject \<Rightarrow> 'w \<Rightarrow> (error + 'b KObject) \<times> 'w"
  ResourceDelete :: "Kind \<Rightarrow> string \<Rightarrow> string \<Rightarrow> DeleteOptions \<Rightarrow> 'w \<Rightarrow> error option \<times> 'w"

record 'w ElaInterface =
  RevisionsGet :: "string \<Rightarrow> string \<Rightarrow> 'w \<Rightarrow> (error + Revision) \<times> 'w"
  RevisionsUpdate :: "string \<Rightarrow> Revision \<Rightarrow> 'w \<Rightarrow> (error + Revision) \<times> 'w"

record ('w, 'b) RevisionControllerImpl =
  kubeclientset :: "('w, 'b) KubernetesInterface"
  elaclientset :: "'w ElaInterface"
  lister :: "string \<Rightarrow> string \<Rightarrow> 'w \<Rightarrow> error + Revision"

text \<open>
  What controller.go uses of the packages \<open>util\<close> and \<open>cache\<close>, of the constructors
  of the child payloads and of the constants of the nginx configuration, none of which
  is defined in the file.
\<close>

record ('w, 'b) Deps =
  SplitMetaNamespaceKey :: "string \<Rightarrow> error + string \<times> string"
  GetOrCreateRevisionNamespace ::
    "string \<Rightarrow> ('w, 'b) KubernetesInterface \<Rightarrow> 'w \<Rightarrow> (error + string) \<times> 'w"
  GetElaNamespaceName :: "string \<Rightarrow> string"
  GetRevisionDeploymentName :: "Revision \<Rightarrow> string"
  GetRevisionPodName :: "Revision \<Rightarrow> string"
  GetRevisionAutoscalerName :: "Revision \<Rightarrow> string"
  GetRevisionNginxConfigMapName :: "Revision \<Rightarrow> string"
  GetElaK8SServiceNameForRevision :: "Revision \<Rightarrow> string"
  MakeElaPodSpec :: "Revision \<Rightarrow> 'b"
  MakeElaDeployment :: "Revision \<Rightarrow> string \<Rightarrow> 'b KObject"
  MakeElaAutoscaler :: "Revision \<Rightarrow> string \<Rightarrow> 'b KObject"
  MakeRevisionK8sService :: "Revision \<Rightarrow> string \<Rightarrow> 'b KObject"
  SchemeGroupVersion :: string
  NginxConfigFile :: string
  UpstreamToAppServer :: string
  UpStreamToQueue :: string
  ProxyPassToAppServer :: string
  ProxyPassToQueue :: string

datatype 'b Call =
    GetCall Kind string string "error + 'b KObject"
  | CreateCall Kind string "'b KObject" "error + 'b KObject"
  | DeleteCall Kind string string DeleteOptions "error option"
  | RevisionsGetCall string string "error + Revision"
  | RevisionsUpdateCall string Revision "error + Revision"

datatype LogArg =
    AStr string
  | AErr error
  | ATime "Time option"
  | ABool bool
  | AConds "RevisionCondition list"

datatype LogEntry =
    Printf string "LogArg list"
  | HandleError string "LogArg list"

record ('w, 'b) State =
  World :: 'w
  Calls :: "'b Call list"
  Logs :: "LogEntry list"

definition logPrintf :: "string \<Rightarrow> LogArg list \<Rightarrow> ('w, 'b) State \<Rightarrow> ('w, 'b) State" where
  "logPrintf f args s = s\<lparr>Logs := Logs s @ [Printf f args]\<rparr>"

definition handleError :: "string \<Rightarrow> LogArg list \<Rightarrow> ('w, 'b) State \<Rightarrow> ('w, 'b) State" where
  "handleError f args s = s\<lparr>Logs := Logs s @ [HandleError f args]\<rparr>"

definition apiGet ::
  "('w, 'b) RevisionControllerImpl \<Rightarrow> Kind \<Rightarrow> string \<Rightarrow> string \<Rightarrow> ('w, 'b) State
   \<Rightarrow> (error + 'b KObject) \<times> ('w, 'b) State" where
  "apiGet c k ns n s =
     (let (r, w) = ResourceGet (kubeclientset c) k ns n (World s)
      in (r, s\<lparr>World := w, Calls := Calls s @ [GetCall k ns n r]\<rparr>))"

definition apiCreate ::
  "('w, 'b) RevisionControllerImpl \<Rightarrow> Kind \<Rightarrow> string \<Rightarrow> 'b KObject \<Rightarrow> ('w, 'b) State
   \<Rightarrow> (error + 'b KObject) \<times> ('w, 'b) State" where
  "apiCreate c k ns obj s =
     (let (r, w) = ResourceCreate (kubeclientset c) k ns obj (World s)
      in (r, s\<lparr>World := w, Calls := Calls s @ [CreateCall k ns obj r]\<rparr>))"

definition apiDelete ::
  "('w, 'b) RevisionControllerImpl \<Rightarrow> Kind \<Rightarrow> string \<Rightarrow> string \<Rightarrow> DeleteOptions
   \<Rightarrow> ('w, 'b) State \<Rightarrow> error option \<times> ('w, 'b) State" where
  "apiDelete c k ns n opts s =
     (let (r, w) = ResourceDelete (kubeclientset c) k ns n opts (World s)
      in (r, s\<lparr>World := w, Calls := Calls s @ [DeleteCall k ns n opts r]\<rparr>))"

definition revisionsGet ::
  "('w, 'b) RevisionControllerImpl \<Rightarrow> string \<Rightarrow> string \<Rightarrow> ('w, 'b) State
   \<Rightarrow> (error + Revision) \<times> ('w, 'b) State" where
  "revisionsGet c ns n s =
     (let (r, w) = RevisionsGet (elaclientset c) ns n (World s)
      in (r, s\<lparr>World := w, Calls := Calls s @ [RevisionsGetCall ns n r]\<rparr>))"

definition revisionsUpdate ::
  "('w, 'b) RevisionControllerImpl \<Rightarrow> string \<Rightarrow> Revision \<Rightarrow> ('w, 'b) State
   \<Rightarrow> (error + Revision) \<times> ('w, 'b) State" where
  "revisionsUpdate c ns u s =
     (let (r, w) = RevisionsUpdate (elaclientset c) ns u (World s)
      in (r, s\<lparr>World := w, Calls := Calls s @ [RevisionsUpdateCall ns u r]\<rparr>))"

text \<open>The error of a Go result pair \<open>(value, err)\<close>.\<close>

fun errOf :: "error + 'a \<Rightarrow> error option" where
  "errOf (Inl e) = Some e"
| "errOf (Inr v) = None"

subsection \<open>Library helpers\<close>

text \<open>
  \<open>meta.Accessor\<close> returns the object itself when it implements \<open>metav1.Object\<close>,
  which a Revision does through its embedded ObjectMeta.
\<close>

definition Accessor :: "Revision \<Rightarrow> error + ObjectMeta" where
  "Accessor u = Inr (ObjectMeta u)"

text \<open>
  \<open>controllerKind\<close> is the scheme's group and version with the kind ElaDeployment;
  \<open>metav1.NewControllerRef\<close> builds the owner reference of a controller.
\<close>

definition controllerKind :: "('w, 'b) Deps \<Rightarrow> string \<times> string" where
  "controllerKind d = (SchemeGroupVersion d, ''ElaDeployment'')"

definition NewControllerRef :: "Revision \<Rightarrow> string \<times> string \<Rightarrow> OwnerReference" where
  "NewControllerRef owner gvk =
     \<lparr>RefAPIVersion = fst gvk, RefKind = snd gvk, RefName = Name (ObjectMeta owner),
      RefUID = UID (ObjectMeta owner), RefController = Some True,
      RefBlockOwnerDeletion = Some True\<rparr>"

text \<open>\<open>x.OwnerReferences = append(x.OwnerReferences, ref)\<close>\<close>

definition appendOwnerReference :: "'b KObject \<Rightarrow> OwnerReference \<Rightarrow> 'b KObject" where
  "appendOwnerReference obj ref =
     obj\<lparr>Meta := (Meta obj)\<lparr>OwnerReferences := OwnerReferences (Meta obj) @ [ref]\<rparr>\<rparr>"

text \<open>\<open>deployment.Spec.Template.Spec = *podSpec\<close>\<close>

fun setTemplateSpec :: "'b Payload \<Rightarrow> 'b \<Rightarrow> 'b Payload" where
  "setTemplateSpec (DeploymentPayload spec tmpl) podSpec = DeploymentPayload spec podSpec"
| "setTemplateSpec p podSpec = p"

text \<open>\<open>strings.Replace(s, old, new, -1)\<close>: every non-overlapping occurrence, left to right.\<close>

fun strings_ReplaceAll :: "string \<Rightarrow> string \<Rightarrow> string \<Rightarrow> string" where
  "strings_ReplaceAll [] old new = (if old = [] then new else [])"
| "strings_ReplaceAll (ch # cs) old new =
     (if old = [] then new @ ch # strings_ReplaceAll cs old new
      else if prefix old (ch # cs)
        then new @ strings_ReplaceAll (drop (length old - 1) cs) old new
        else ch # strings_ReplaceAll cs old new)"

subsection \<open>The nginx configmap\<close>

definition getNginxConfig :: "('w, 'b) Deps \<Rightarrow> bool \<Rightarrow> string" where
  "getNginxConfig d enableQueue =
     (let nginxConfiguration = NginxConfigFile d
      in if enableQueue
         then strings_ReplaceAll
                (strings_ReplaceAll nginxConfiguration (UpstreamToAppServer d) (UpStreamToQueue d))
                (ProxyPassToAppServer d) (ProxyPassToQueue d)
         else nginxConfiguration)"

definition elaServiceLabel :: string where "elaServiceLabel = ''elaservice''"
definition elaVersionLabel :: string where "elaVersionLabel = ''revision''"

definition MakeNginxConfigMap ::
  "('w, 'b) Deps \<Rightarrow> Revision \<Rightarrow> string \<Rightarrow> ('w, 'b) State \<Rightarrow> 'b KObject \<times> ('w, 'b) State" where
  "MakeNginxConfigMap d u namespace s =
     (let enableQueue = False;
          s1 = logPrintf ''Queue enabled: %t'' [ABool enableQueue] s;
          nginxConfiguration = getNginxConfig d enableQueue
      in (\<lparr>Meta = (newObjectMeta (GetRevisionNginxConfigMapName d u) namespace)
                    \<lparr>Labels := [(elaServiceLabel, SpecService (Spec u)),
                                (elaVersionLabel, Name (ObjectMeta u))]\<rparr>,
           Payload = ConfigMapPayload [(''nginx.conf'', nginxConfiguration)]\<rparr>, s1))"

subsection \<open>The status updater\<close>

definition updateStatus ::
  "('w, 'b) RevisionControllerImpl \<Rightarrow> Revision \<Rightarrow> ('w, 'b) State
   \<Rightarrow> (error + Revision) \<times> ('w, 'b) State" where
  "updateStatus c u s =
     (let (r, s1) = revisionsGet c (Namespace (ObjectMeta u)) (Name (ObjectMeta u)) s
      in case r of
           Inl err \<Rightarrow> (Inl err, s1)
         | Inr newu \<Rightarrow>
             revisionsUpdate c (Namespace (ObjectMeta u)) (newu\<lparr>Status := Status u\<rparr>) s1)"

subsection \<open>Deleting the children\<close>

definition foreground :: DeleteOptions where
  "foreground = \<lparr>PropagationPolicy = Some DeletePropagationForeground\<rparr>"

definition deleteDeployment ::
  "('w, 'b) Deps \<Rightarrow> ('w, 'b) RevisionControllerImpl \<Rightarrow> Revision \<Rightarrow> string \<Rightarrow> ('w, 'b) State
   \<Rightarrow> error option \<times> ('w, 'b) State" where
  "deleteDeployment d c u ns s =
     (let deploymentName = GetRevisionDeploymentName d u;
          (r, s1) = apiGet c Deployment ns deploymentName s
      in if (case r of Inl err \<Rightarrow> IsNotFound err | Inr x \<Rightarrow> False) then (None, s1)
         else
           (let s2 = logPrintf ''Deleting Deployment %q'' [AStr deploymentName] s1;
                (err, s3) = apiDelete c Deployment ns deploymentName foreground s2
            in case err of
                 None \<Rightarrow> (None, s3)
               | Some e \<Rightarrow>
                   if \<not> IsNotFound e
                   then (Some e, logPrintf ''deployments.Delete for %q failed: %s''
                                   [AStr deploymentName, AErr e] s3)
                   else (None, s3)))"

definition deleteNginxConfig ::
  "('w, 'b) Deps \<Rightarrow> ('w, 'b) RevisionControllerImpl \<Rightarrow> Revision \<Rightarrow> string \<Rightarrow> ('w, 'b) State
   \<Rightarrow> error option \<times> ('w, 'b) State" where
  "deleteNginxConfig d c u ns s =
     (let configMapName = GetRevisionNginxConfigMapName d u;
          (r, s1) = apiGet c ConfigMap ns configMapName s
      in if (case r of Inl err \<Rightarrow> IsNotFound err | Inr x \<Rightarrow> False) then (None, s1)
         else
           (let s2 = logPrintf ''Deleting configmap %q'' [AStr configMapName] s1;
                (err, s3) = apiDelete c ConfigMap ns configMapName foreground s2
            in case err of
                 None \<Rightarrow> (None, s3)
               | Some e \<Rightarrow>
                   if \<not> IsNotFound e
                   then (Some e, logPrintf ''configMap.Delete for %q failed: %s''
                                   [AStr configMapName, AErr e] s3)
                   else (None, s3)))"

definition deleteService ::
  "('w, 'b) Deps \<Rightarrow> ('w, 'b) RevisionControllerImpl \<Rightarrow> Revision \<Rightarrow> string \<Rightarrow> ('w, 'b) State
   \<Rightarrow> error option \<times> ('w, 'b) State" where
  "deleteService d c u ns s =
     (let serviceName = GetElaK8SServiceNameForRevision d u;
          s1 = logPrintf ''Deleting service %q'' [AStr serviceName] s;
          (err, s2) = apiDelete c Service ns serviceName foreground s1
      in case err of
           None \<Rightarrow> (None, s2)
         | Some e \<Rightarrow>
             if \<not> IsNotFound e
             then (Some e, logPrintf ''service.Delete for %q failed: %s''
                             [AStr serviceName, AErr e] s2)
             else (None, s2))"

definition deleteAutoscaler ::
  "('w, 'b) Deps \<Rightarrow> ('w, 'b) RevisionControllerImpl \<Rightarrow> Revision \<Rightarrow> string \<Rightarrow> ('w, 'b) State
   \<Rightarrow> error option \<times> ('w, 'b) State" where
  "deleteAutoscaler d c u ns s =
     (let autoscalerName = GetRevisionAutoscalerName d u;
          (r, s1) = apiGet c HorizontalPodAutoscaler ns autoscalerName s
      in if (case r of Inl err \<Rightarrow> IsNotFound err | Inr x \<Rightarrow> False) then (None, s1)
         else
           (let s2 = logPrintf ''Deleting autoscaler %q'' [AStr autoscalerName] s1;
                (err, s3) = apiDelete c HorizontalPodAutoscaler ns autoscalerName foreground s2
            in case err of
                 None \<Rightarrow> (None, s3)
               | Some e \<Rightarrow>
                   if \<not> IsNotFound e
                   then (Some e, logPrintf ''autoscaler.Delete for %q failed: %s''
                                   [AStr autoscalerName, AErr e] s3)
                   else (None, s3)))"

subsection \<open>Reconciling the children\<close>

definition reconcileDeployment ::
  "('w, 'b) Deps \<Rightarrow> ('w, 'b) RevisionControllerImpl \<Rightarrow> Revision \<Rightarrow> string \<Rightarrow> ('w, 'b) State
   \<Rightarrow> error option \<times> ('w, 'b) State" where
  "reconcileDeployment d c u ns s =
     (let deploymentName = GetRevisionDeploymentName d u;
          (r, s1) = apiGet c Deployment ns deploymentName s
      in case r of
           Inr found \<Rightarrow>
             (None, logPrintf ''Found existing deployment %q'' [AStr deploymentName] s1)
         | Inl err \<Rightarrow>
             if \<not> IsNotFound err
             then (Some err, logPrintf ''deployments.Get for %q failed: %s''
                               [AStr deploymentName, AErr err] s1)
             else
               (let s2 = logPrintf ''Deployment %q doesn't exist, creating''
                           [AStr deploymentName] s1;
                    controllerRef = NewControllerRef u (controllerKind d);
                    podSpec = MakeElaPodSpec d u;
                    pod = \<lparr>Meta = newObjectMeta (GetRevisionPodName d u) ns,
                           Payload = PodPayload podSpec\<rparr>;
                    pod = appendOwnerReference pod controllerRef;
                    (pr, s3) = apiCreate c Pod ns pod s2;
                    s4 = (case pr of
                            Inl perr \<Rightarrow> logPrintf ''Failed to create pod: %s'' [AErr perr] s3
                          | Inr created \<Rightarrow> s3);
                    deployment = MakeElaDeployment d u ns;
                    deployment = appendOwnerReference deployment controllerRef;
                    deployment = deployment\<lparr>Payload := setTemplateSpec (Payload deployment) podSpec\<rparr>;
                    s5 = logPrintf ''Creating Deployment: %q'' [AStr (Name (Meta deployment))] s4;
                    (cr, s6) = apiCreate c Deployment ns deployment s5
                in (errOf cr, s6)))"

definition reconcileNginxConfig ::
  "('w, 'b) Deps \<Rightarrow> ('w, 'b) RevisionControllerImpl \<Rightarrow> Revision \<Rightarrow> string \<Rightarrow> ('w, 'b) State
   \<Rightarrow> error option \<times> ('w, 'b) State" where
  "reconcileNginxConfig d c u ns s =
     (let configMapName = GetRevisionNginxConfigMapName d u;
          (r, s1) = apiGet c ConfigMap ns configMapName s
      in case r of
           Inr found \<Rightarrow>
             (None, logPrintf ''Found existing ConfigMap %q'' [AStr configMapName] s1)
         | Inl err \<Rightarrow>
             if \<not> IsNotFound err
             then (Some err, logPrintf ''configmaps.Get for %q failed: %s''
                               [AStr configMapName, AErr err] s1)
             else
               (let s2 = logPrintf ''ConfigMap %q doesn't exist, creating''
                           [AStr configMapName] s1;
                    controllerRef = NewControllerRef u (controllerKind d);
                    (configMap, s3) = MakeNginxConfigMap d u ns s2;
                    configMap = appendOwnerReference configMap controllerRef;
                    s4 = logPrintf ''Creating configmap: %q'' [AStr (Name (Meta configMap))] s3;
                    (cr, s5) = apiCreate c ConfigMap ns configMap s4
                in (errOf cr, s5)))"

definition reconcileService ::
  "('w, 'b) Deps \<Rightarrow> ('w, 'b) RevisionControllerImpl \<Rightarrow> Revision \<Rightarrow> string \<Rightarrow> ('w, 'b) State
   \<Rightarrow> (string \<times> error option) \<times> ('w, 'b) State" where
  "reconcileService d c u ns s =
     (let serviceName = GetElaK8SServiceNameForRevision d u;
          (r, s1) = apiGet c Service ns serviceName s
      in case r of
           Inr found \<Rightarrow>
             ((serviceName, None),
              logPrintf ''Found existing service %q'' [AStr serviceName] s1)
         | Inl err \<Rightarrow>
             if \<not> IsNotFound err
             then (([], Some err), logPrintf ''services.Get for %q failed: %s''
                                     [AStr serviceName, AErr err] s1)
             else
               (let s2 = logPrintf ''serviceName %q doesn't exist, creating''
                           [AStr serviceName] s1;
                    controllerRef = NewControllerRef u (controllerKind d);
                    service = MakeRevisionK8sService d u ns;
                    service = appendOwnerReference service controllerRef;
                    s3 = logPrintf ''Creating service: %q'' [AStr (Name (Meta service))] s2;
                    (cr, s4) = apiCreate c Service ns service s3
                in ((serviceName, errOf cr), s4)))"

definition reconcileAutoscaler ::
  "('w, 'b) Deps \<Rightarrow> ('w, 'b) RevisionControllerImpl \<Rightarrow> Revision \<Rightarrow> string \<Rightarrow> ('w, 'b) State
   \<Rightarrow> error option \<times> ('w, 'b) State" where
  "reconcileAutoscaler d c u ns s =
     (let autoscalerName = GetRevisionAutoscalerName d u;
          (r, s1) = apiGet c HorizontalPodAutoscaler ns autoscalerName s
      in case r of
           Inr found \<Rightarrow>
             (None, logPrintf ''Found existing Autoscaler %q'' [AStr autoscalerName] s1)
         | Inl err \<Rightarrow>
             if \<not> IsNotFound err
             then (Some err, logPrintf ''autoscaler.Get for %q failed: %s''
                               [AStr autoscalerName, AErr err] s1)
             else
               (let s2 = logPrintf ''Autoscaler %q doesn't exist, creating''
                           [AStr autoscalerName] s1;
                    controllerRef = NewControllerRef u (controllerKind d);
                    autoscaler = MakeElaAutoscaler d u ns;
                    autoscaler = appendOwnerReference autoscaler controllerRef;
                    s3 = logPrintf ''Creating autoscaler: %q'' [AStr (Name (Meta autoscaler))] s2;
                    (cr, s4) = apiCreate c HorizontalPodAutoscaler ns autoscaler s3
                in (errOf cr, s4)))"

subsection \<open>The delete path and the create path\<close>

definition condition :: "string \<Rightarrow> string \<Rightarrow> string \<Rightarrow> RevisionCondition" where
  "condition t st r = \<lparr>CondType = t, CondStatus = st, CondReason = r\<rparr>"

text \<open>
  The Go functions mutate the Revision behind the pointer \<open>u\<close> and return an error; the
  model returns the error, the Revision as mutated, and the state.
\<close>

definition deleteK8SResources ::
  "('w, 'b) Deps \<Rightarrow> ('w, 'b) RevisionControllerImpl \<Rightarrow> Revision \<Rightarrow> string \<Rightarrow> ('w, 'b) State
   \<Rightarrow> error option \<times> Revision \<times> ('w, 'b) State" where
  "deleteK8SResources d c u ns s =
     (let s0 = logPrintf ''Deleting the resources for %s\<newline>'' [AStr (Name (ObjectMeta u))] s;
          (err1, s1) = deleteDeployment d c u ns s0;
          s1 = (case err1 of Some e \<Rightarrow> logPrintf ''Failed to delete a deployment: %s'' [AErr e] s1
                | None \<Rightarrow> s1);
          s1 = logPrintf ''Deleted deployment'' [] s1;
          (err2, s2) = deleteAutoscaler d c u ns s1;
          s2 = (case err2 of Some e \<Rightarrow> logPrintf ''Failed to delete autoscaler: %s'' [AErr e] s2
                | None \<Rightarrow> s2);
          s2 = logPrintf ''Deleted autoscaler'' [] s2;
          (err3, s3) = deleteNginxConfig d c u ns s2;
          s3 = (case err3 of Some e \<Rightarrow> logPrintf ''Failed to delete configmap: %s'' [AErr e] s3
                | None \<Rightarrow> s3);
          s3 = logPrintf ''Deleted nginx configmap'' [] s3;
          (err4, s4) = deleteService d c u ns s3;
          s4 = (case err4 of Some e \<Rightarrow> logPrintf ''Failed to delete k8s service: %s'' [AErr e] s4
                | None \<Rightarrow> s4);
          s4 = logPrintf ''Deleted service'' [] s4;
          u = u\<lparr>Status := (Status u)\<lparr>Conditions := [condition ''Ready'' ''False'' ''Inactive'']\<rparr>\<rparr>;
          s5 = logPrintf ''2. Updating status with the following conditions %+v''
                 [AConds (Conditions (Status u))] s4;
          (r, s6) = updateStatus c u s5
      in case r of
           Inl err \<Rightarrow> (Some err, u, logPrintf ''Error recording build completion: %s'' [AErr err] s6)
         | Inr updated \<Rightarrow> (None, u, s6))"

definition createK8SResources ::
  "('w, 'b) Deps \<Rightarrow> ('w, 'b) RevisionControllerImpl \<Rightarrow> Revision \<Rightarrow> string \<Rightarrow> ('w, 'b) State
   \<Rightarrow> error option \<times> Revision \<times> ('w, 'b) State" where
  "createK8SResources d c u ns s =
     (let (err1, s1) = reconcileDeployment d c u ns s
      in case err1 of
           Some e \<Rightarrow> (Some e, u, logPrintf ''Failed to create a deployment: %s'' [AErr e] s1)
         | None \<Rightarrow>
            (let (err2, s2) = reconcileAutoscaler d c u ns s1;
                 s2 = (case err2 of
                         Some e \<Rightarrow> logPrintf ''Failed to create autoscaler: %s'' [AErr e] s2
                       | None \<Rightarrow> s2);
                 (err3, s3) = reconcileNginxConfig d c u ns s2;
                 s3 = (case err3 of
                         Some e \<Rightarrow> logPrintf ''Failed to create nginx configmap: %s'' [AErr e] s3
                       | None \<Rightarrow> s3);
                 ((serviceName, err4), s4) = reconcileService d c u ns s3;
                 (u, s4) = (case err4 of
                              Some e \<Rightarrow>
                                (u, logPrintf ''Failed to create k8s service: %s'' [AErr e] s4)
                            | None \<Rightarrow>
                                (u\<lparr>Status := (Status u)\<lparr>ServiceName := serviceName\<rparr>\<rparr>, s4));
                 u = u\<lparr>Status := (Status u)\<lparr>Conditions := [condition ''Ready'' ''False'' ''Deploying'']\<rparr>\<rparr>;
                 s5 = logPrintf ''2. Updating status with the following conditions %+v''
                        [AConds (Conditions (Status u))] s4;
                 (r, s6) = updateStatus c u s5
             in case r of
                  Inl err \<Rightarrow>
                    (Some err, u, logPrintf ''Error recording build completion: %s'' [AErr err] s6)
                | Inr updated \<Rightarrow> (None, u, s6)))"

subsection \<open>The sync handler\<close>

text \<open>A call either returns its error value or panics, which ends the process.\<close>

datatype Outcome = Returned "error option" | Panicked string

definition printErr :: "error option \<Rightarrow> ('w, 'b) State \<Rightarrow> error option \<times> ('w, 'b) State" where
  "printErr err s =
     (case err of
        Some e \<Rightarrow> (err, logPrintf ''Logging error: %s'' [AErr e] s)
      | None \<Rightarrow> (err, s))"

definition reconcileWithImage ::
  "('w, 'b) Deps \<Rightarrow> ('w, 'b) RevisionControllerImpl \<Rightarrow> Revision \<Rightarrow> string \<Rightarrow> ('w, 'b) State
   \<Rightarrow> Outcome \<times> Revision \<times> ('w, 'b) State" where
  "reconcileWithImage d c u ns s =
     (case Accessor u of
        Inl err \<Rightarrow>
          (Panicked ''Failed to get metadata'', u,
           logPrintf ''Failed to get metadata: %s'' [AErr err] s)
      | Inr accessor \<Rightarrow>
          (let deletionTimestamp = DeletionTimestamp accessor;
               s1 = logPrintf ''Check the deletionTimestamp: %s\<newline>'' [ATime deletionTimestamp] s;
               elaNS = GetElaNamespaceName d (Namespace (ObjectMeta u))
           in if deletionTimestamp = None
              then
                (let s2 = logPrintf ''Creating or reconciling resources for %s\<newline>''
                            [AStr (Name (ObjectMeta u))] s1;
                     (err, u', s3) = createK8SResources d c u elaNS s2
                 in (Returned err, u', s3))
              else
                (let (err, u', s3) = deleteK8SResources d c u elaNS s1
                 in (Returned err, u', s3))))"

definition syncHandler ::
  "('w, 'b) Deps \<Rightarrow> ('w, 'b) RevisionControllerImpl \<Rightarrow> string \<Rightarrow> ('w, 'b) State
   \<Rightarrow> Outcome \<times> ('w, 'b) State" where
  "syncHandler d c key s =
     (case SplitMetaNamespaceKey d key of
        Inl err \<Rightarrow> (Returned None, handleError ''invalid resource key: %s'' [AStr key] s)
      | Inr (namespace, name) \<Rightarrow>
          (let s1 = logPrintf ''Running reconcile Revision for %q:%q\<newline>''
                      [AStr namespace, AStr name] s
           in case lister c namespace name (World s1) of
                Inl err \<Rightarrow>
                  if IsNotFound err
                  then (Returned None,
                        handleError ''revision '%s' in work queue no longer exists'' [AStr key] s1)
                  else (Returned (Some err), s1)
              | Inr rev' \<Rightarrow>
                  (let (r, w) = GetOrCreateRevisionNamespace d namespace (kubeclientset c) (World s1);
                       s2 = s1\<lparr>World := w\<rparr>
                   in case r of
                        Inl err \<Rightarrow>
                          (Panicked ''Failed to create namespace'',
                           logPrintf ''Failed to create namespace: %s'' [AErr err] s2)
                      | Inr ns \<Rightarrow>
                          (let s3 = logPrintf ''Namespace %q validated to exist, moving on''
                                      [AStr ns] s2;
                               (out, u', s4) = reconcileWithImage d c rev' namespace s3
                           in case out of
                                Returned err \<Rightarrow>
                                  (let (err', s5) = printErr err s4 in (Returned err', s5))
                              | Panicked m \<Rightarrow> (Panicked m, s4)))))"

subsection \<open>Reading the calls of a run\<close>

text \<open>
  \<open>continues a b\<close>: state \<open>b\<close> is state \<open>a\<close> with, at most, further log lines; no API
  call lies between them.
\<close>

definition continues :: "('w, 'b) State \<Rightarrow> ('w, 'b) State \<Rightarrow> bool" where
  "continues a b = (World b = World a \<and> Calls b = Calls a \<and> prefix (Logs a) (Logs b))"

text \<open>An error, when there is one, is in the log under the given format string.\<close>

definition loggedIfError :: "error option \<Rightarrow> string \<Rightarrow> ('w, 'b) State \<Rightarrow> bool" where
  "loggedIfError err f s = (case err of None \<Rightarrow> True | Some e \<Rightarrow> Printf f [AErr e] \<in> set (Logs s))"

text \<open>The create calls among a list of calls: kind, namespace and name of the object.\<close>

fun creates :: "'b Call list \<Rightarrow> (Kind \<times> string \<times> string) list" where
  "creates [] = []"
| "creates (CreateCall k ns obj r # cs) = (k, ns, Name (Meta obj)) # creates cs"
| "creates (x # cs) = creates cs"

text \<open>The delete calls among a list of calls, each with the answer it got.\<close>

fun deletes :: "'b Call list \<Rightarrow> (Kind \<times> string \<times> string \<times> error option) list" where
  "deletes [] = []"
| "deletes (DeleteCall k ns n opts r # cs) = (k, ns, n, r) # deletes cs"
| "deletes (x # cs) = deletes cs"

subsection \<open>The shared protocols of the child operations\<close>

text \<open>
  The contract of \<open>reconcile-X\<close> in the words of the specification: fetch by name; if
  found, no write and success; if not found, create the payload and return the outcome
  of the create; any other fetch error is returned and nothing is created. The result
  \<open>res\<close> is the returned error and the state after the call. \<open>pre\<close> stands for
  calls made between the fetch and the create.
\<close>

definition reconcileProtocol ::
  "('w, 'b) RevisionControllerImpl \<Rightarrow> Kind \<Rightarrow> string \<Rightarrow> string \<Rightarrow> 'b KObject
   \<Rightarrow> ('w \<Rightarrow> 'b Call list \<times> 'w) \<Rightarrow> ('w, 'b) State \<Rightarrow> error option \<times> ('w, 'b) State \<Rightarrow> bool" where
  "reconcileProtocol c k ns n obj pre s res =
     (case ResourceGet (kubeclientset c) k ns n (World s) of
        (Inr found, w1) \<Rightarrow>
          fst res = None \<and> World (snd res) = w1
          \<and> Calls (snd res) = Calls s @ [GetCall k ns n (Inr found)]
      | (Inl err, w1) \<Rightarrow>
          if IsNotFound err
          then (case pre w1 of
                  (preCalls, w2) \<Rightarrow>
                    (case ResourceCreate (kubeclientset c) k ns obj w2 of
                       (cr, w3) \<Rightarrow>
                         fst res = errOf cr \<and> World (snd res) = w3
                         \<and> Calls (snd res)
                           = Calls s @ GetCall k ns n (Inl err) # preCalls
                               @ [CreateCall k ns obj cr]))
          else fst res = Some err \<and> World (snd res) = w1
               \<and> Calls (snd res) = Calls s @ [GetCall k ns n (Inl err)])"

definition noCalls :: "'w \<Rightarrow> 'b Call list \<times> 'w" where
  "noCalls w = ([], w)"

text \<open>The one create of a pod that \<open>reconcileDeployment\<close> makes before the deployment's.\<close>

definition podCreate ::
  "('w, 'b) RevisionControllerImpl \<Rightarrow> string \<Rightarrow> 'b KObject \<Rightarrow> 'w \<Rightarrow> 'b Call list \<times> 'w" where
  "podCreate c ns pod w =
     (case ResourceCreate (kubeclientset c) Pod ns pod w of
        (pr, w') \<Rightarrow> ([CreateCall Pod ns pod pr], w'))"

text \<open>The payloads the four reconcilers send, owner reference attached.\<close>

definition podOf :: "('w, 'b) Deps \<Rightarrow> Revision \<Rightarrow> string \<Rightarrow> 'b KObject" where
  "podOf d u ns =
     appendOwnerReference
       \<lparr>Meta = newObjectMeta (GetRevisionPodName d u) ns, Payload = PodPayload (MakeElaPodSpec d u)\<rparr>
       (NewControllerRef u (controllerKind d))"

definition deploymentOf :: "('w, 'b) Deps \<Rightarrow> Revision \<Rightarrow> string \<Rightarrow> 'b KObject" where
  "deploymentOf d u ns =
     (appendOwnerReference (MakeElaDeployment d u ns) (NewControllerRef u (controllerKind d)))
       \<lparr>Payload := setTemplateSpec (Payload (MakeElaDeployment d u ns)) (MakeElaPodSpec d u)\<rparr>"

definition autoscalerOf :: "('w, 'b) Deps \<Rightarrow> Revision \<Rightarrow> string \<Rightarrow> 'b KObject" where
  "autoscalerOf d u ns =
     appendOwnerReference (MakeElaAutoscaler d u ns) (NewControllerRef u (controllerKind d))"

definition configMapOf :: "('w, 'b) Deps \<Rightarrow> Revision \<Rightarrow> string \<Rightarrow> 'b KObject" where
  "configMapOf d u ns =
     appendOwnerReference
       \<lparr>Meta = (newObjectMeta (GetRevisionNginxConfigMapName d u) ns)
                 \<lparr>Labels := [(elaServiceLabel, SpecService (Spec u)),
                             (elaVersionLabel, Name (ObjectMeta u))]\<rparr>,
        Payload = ConfigMapPayload [(''nginx.conf'', NginxConfigFile d)]\<rparr>
       (NewControllerRef u (controllerKind d))"

definition serviceOf :: "('w, 'b) Deps \<Rightarrow> Revision \<Rightarrow> string \<Rightarrow> 'b KObject" where
  "serviceOf d u ns =
     appendOwnerReference (MakeRevisionK8sService d u ns) (NewControllerRef u (controllerKind d))"

text \<open>An owner reference to the Revision is among the owner references of the object.\<close>

definition ownedBy :: "Revision \<Rightarrow> 'b KObject \<Rightarrow> bool" where
  "ownedBy u obj =
     (\<exists>ref \<in> set (OwnerReferences (Meta obj)).
        RefName ref = Name (ObjectMeta u) \<and> RefUID ref = UID (ObjectMeta u)
        \<and> RefController ref = Some True)"

text \<open>
  The contract of \<open>delete-X\<close> in the words of the specification: fetch; if not found,
  success; otherwise a foreground-cascading delete, whose not-found is success and whose
  other errors are returned. \<open>deleteDirect\<close> is the same without the fetch.
\<close>

definition deleteOutcome :: "error option \<Rightarrow> error option" where
  "deleteOutcome derr =
     (case derr of None \<Rightarrow> None | Some e \<Rightarrow> if IsNotFound e then None else Some e)"

definition deleteProtocol ::
  "('w, 'b) RevisionControllerImpl \<Rightarrow> Kind \<Rightarrow> string \<Rightarrow> string \<Rightarrow> ('w, 'b) State
   \<Rightarrow> error option \<times> ('w, 'b) State \<Rightarrow> bool" where
  "deleteProtocol c k ns n s res =
     (case ResourceGet (kubeclientset c) k ns n (World s) of
        (r, w1) \<Rightarrow>
          if (case r of Inl err \<Rightarrow> IsNotFound err | Inr found \<Rightarrow> False)
          then fst res = None \<and> World (snd res) = w1
               \<and> Calls (snd res) = Calls s @ [GetCall k ns n r]
          else (case ResourceDelete (kubeclientset c) k ns n foreground w1 of
                  (derr, w2) \<Rightarrow>
                    fst res = deleteOutcome derr \<and> World (snd res) = w2
                    \<and> Calls (snd res)
                      = Calls s @ [GetCall k ns n r, DeleteCall k ns n foreground derr]))"

definition deleteDirect ::
  "('w, 'b) RevisionControllerImpl \<Rightarrow> Kind \<Rightarrow> string \<Rightarrow> string \<Rightarrow> ('w, 'b) State
   \<Rightarrow> error option \<times> ('w, 'b) State \<Rightarrow> bool" where
  "deleteDirect c k ns n s res =
     (case ResourceDelete (kubeclientset c) k ns n foreground (World s) of
        (derr, w2) \<Rightarrow>
          fst res = deleteOutcome derr \<and> World (snd res) = w2
          \<and> Calls (snd res) = Calls s @ [DeleteCall k ns n foreground derr])"

subsection \<open>A resource store\<close>

text \<open>
  Modelled from the spec: the resource API is an external collaborator of the controller
  (``the remote resource store that persists Revision, Deployment, Service, Autoscaler,
  and ConfigMap objects and enforces get/create/delete/update semantics''), and so is the
  watch cache. The store keeps the child objects by kind, namespace and name and the
  Revisions by namespace and name: a get of an absent object answers not-found, a create
  of a present one already-exists, a delete or an update of an absent one not-found.
  The cache is a second table of Revisions.
\<close>

record 'b Store =
  Objects :: "Kind \<times> string \<times> string \<Rightarrow> 'b KObject option"
  StoredRevisions :: "string \<times> string \<Rightarrow> Revision option"
  CachedRevisions :: "string \<times> string \<Rightarrow> Revision option"

definition notFound :: "string \<Rightarrow> error" where
  "notFound n = StatusError StatusReasonNotFound n"

definition alreadyExists :: "string \<Rightarrow> error" where
  "alreadyExists n = StatusError StatusReasonAlreadyExists n"

definition storeGet ::
  "Kind \<Rightarrow> string \<Rightarrow> string \<Rightarrow> 'b Store \<Rightarrow> (error + 'b KObject) \<times> 'b Store" where
  "storeGet k ns n w =
     (case Objects w (k, ns, n) of
        None \<Rightarrow> (Inl (notFound n), w)
      | Some obj \<Rightarrow> (Inr obj, w))"

definition storeCreate ::
  "Kind \<Rightarrow> string \<Rightarrow> 'b KObject \<Rightarrow> 'b Store \<Rightarrow> (error + 'b KObject) \<times> 'b Store" where
  "storeCreate k ns obj w =
     (case Objects w (k, ns, Name (Meta obj)) of
        Some old \<Rightarrow> (Inl (alreadyExists (Name (Meta obj))), w)
      | None \<Rightarrow> (Inr obj, w\<lparr>Objects := (Objects w)((k, ns, Name (Meta obj)) \<mapsto> obj)\<rparr>))"

definition storeDelete ::
  "Kind \<Rightarrow> string \<Rightarrow> string \<Rightarrow> DeleteOptions \<Rightarrow> 'b Store \<Rightarrow> error option \<times> 'b Store" where
  "storeDelete k ns n opts w =
     (case Objects w (k, ns, n) of
        None \<Rightarrow> (Some (notFound n), w)
      | Some obj \<Rightarrow> (None, w\<lparr>Objects := (Objects w)((k, ns, n) := None)\<rparr>))"

definition storeRevisionsGet ::
  "string \<Rightarrow> string \<Rightarrow> 'b Store \<Rightarrow> (error + Revision) \<times> 'b Store" where
  "storeRevisionsGet ns n w =
     (case StoredRevisions w (ns, n) of
        None \<Rightarrow> (Inl (notFound n), w)
      | Some u \<Rightarrow> (Inr u, w))"

definition storeRevisionsUpdate ::
  "string \<Rightarrow> Revision \<Rightarrow> 'b Store \<Rightarrow> (error + Revision) \<times> 'b Store" where
  "storeRevisionsUpdate ns u w =
     (case StoredRevisions w (ns, Name (ObjectMeta u)) of
        None \<Rightarrow> (Inl (notFound (Name (ObjectMeta u))), w)
      | Some old \<Rightarrow>
          (Inr u, w\<lparr>StoredRevisions := (StoredRevisions w)((ns, Name (ObjectMeta u)) \<mapsto> u)\<rparr>))"

definition storeLister :: "string \<Rightarrow> string \<Rightarrow> 'b Store \<Rightarrow> error + Revision" where
  "storeLister ns n w =
     (case CachedRevisions w (ns, n) of
        None \<Rightarrow> Inl (notFound n)
      | Some u \<Rightarrow> Inr u)"

definition storeKube :: "('b Store, 'b) KubernetesInterface" where
  "storeKube =
     \<lparr>ResourceGet = storeGet, ResourceCreate = storeCreate, ResourceDelete = storeDelete\<rparr>"

definition storeEla :: "'b Store ElaInterface" where
  "storeEla = \<lparr>RevisionsGet = storeRevisionsGet, RevisionsUpdate = storeRevisionsUpdate\<rparr>"

definition storeClient :: "('b Store, 'b) RevisionControllerImpl" where
  "storeClient = \<lparr>kubeclientset = storeKube, elaclientset = storeEla, lister = storeLister\<rparr>"

definition initState :: "'w \<Rightarrow> ('w, 'b) State" where
  "initState w = \<lparr>World = w, Calls = [], Logs = []\<rparr>"

text \<open>
  \<open>ensure k v m\<close> is the table \<open>m\<close> after a create-if-absent of \<open>v\<close> under \<open>k\<close>.
  \<open>holdsRevision w u\<close>: the store holds a Revision under the namespace and name of
  \<open>u\<close>, and that Revision bears this name.
\<close>

definition ensure :: "'k \<Rightarrow> 'v \<Rightarrow> ('k \<Rightarrow> 'v option) \<Rightarrow> ('k \<Rightarrow> 'v option)" where
  "ensure k v m = (case m k of None \<Rightarrow> m(k \<mapsto> v) | Some old \<Rightarrow> m)"

definition holdsRevision :: "'b Store \<Rightarrow> Revision \<Rightarrow> bool" where
  "holdsRevision w u =
     (case StoredRevisions w (Namespace (ObjectMeta u), Name (ObjectMeta u)) of
        None \<Rightarrow> False
      | Some stored \<Rightarrow> Name (ObjectMeta stored) = Name (ObjectMeta u))"

text \<open>The four children of a Revision, by kind and derived name, in a namespace.\<close>

definition childKeys :: "('w, 'b) Deps \<Rightarrow> Revision \<Rightarrow> string \<Rightarrow> (Kind \<times> string \<times> string) list" where
  "childKeys d u ns =
     [(Deployment, ns, GetRevisionDeploymentName d u),
      (HorizontalPodAutoscaler, ns, GetRevisionAutoscalerName d u),
      (ConfigMap, ns, GetRevisionNginxConfigMapName d u),
      (Service, ns, GetElaK8SServiceNameForRevision d u)]"

text \<open>
  The objects of the store after a run of the create path from the objects \<open>m\<close>, and
  the create calls of that run: a pod and the deployment when the deployment is absent,
  then each of the autoscaler, the configmap and the service that is absent.
\<close>

definition afterCreatePath ::
  "('w, 'b) Deps \<Rightarrow> Revision \<Rightarrow> string \<Rightarrow> (Kind \<times> string \<times> string \<Rightarrow> 'b KObject option)
   \<Rightarrow> (Kind \<times> string \<times> string \<Rightarrow> 'b KObject option)" where
  "afterCreatePath d u ns m =
     ensure (Service, ns, GetElaK8SServiceNameForRevision d u) (serviceOf d u ns)
       (ensure (ConfigMap, ns, GetRevisionNginxConfigMapName d u) (configMapOf d u ns)
          (ensure (HorizontalPodAutoscaler, ns, GetRevisionAutoscalerName d u)
             (autoscalerOf d u ns)
             (case m (Deployment, ns, GetRevisionDeploymentName d u) of
                None \<Rightarrow>
                  ensure (Deployment, ns, GetRevisionDeploymentName d u) (deploymentOf d u ns)
                    (ensure (Pod, ns, GetRevisionPodName d u) (podOf d u ns) m)
              | Some old \<Rightarrow> m)))"

definition createdByCreatePath ::
  "('w, 'b) Deps \<Rightarrow> Revision \<Rightarrow> string \<Rightarrow> (Kind \<times> string \<times> string \<Rightarrow> 'b KObject option)
   \<Rightarrow> (Kind \<times> string \<times> string) list" where
  "createdByCreatePath d u ns m =
     (if m (Deployment, ns, GetRevisionDeploymentName d u) = None
      then [(Pod, ns, GetRevisionPodName d u), (Deployment, ns, GetRevisionDeploymentName d u)]
      else [])
     @ filter (\<lambda>key. m key = None)
         [(HorizontalPodAutoscaler, ns, GetRevisionAutoscalerName d u),
          (ConfigMap, ns, GetRevisionNginxConfigMapName d u),
          (Service, ns, GetElaK8SServiceNameForRevision d u)]"

text \<open>
  Modelled from the spec: the constructors of the deployment, the autoscaler and the
  service are not in the file; ``each [child is] keyed by a name deterministically
  derived from the Revision's identity'', so the object each builds bears the derived
  name under which the reconciler fetches it. (The configmap's constructor is in the
  file and does so.)
\<close>

definition payloadsNamed :: "('w, 'b) Deps \<Rightarrow> bool" where
  "payloadsNamed d =
     (\<forall>u ns. Name (Meta (MakeElaDeployment d u ns)) = GetRevisionDeploymentName d u
        \<and> Name (Meta (MakeElaAutoscaler d u ns)) = GetRevisionAutoscalerName d u
        \<and> Name (Meta (MakeRevisionK8sService d u ns)) = GetElaK8SServiceNameForRevision d u)"

text \<open>
  Modelled from the spec: the naming functions of package \<open>util\<close> are not in the file;
  ``every child resource name is a pure function of the Revision's identity
  (namespace/name)''.
\<close>

definition namesFromIdentity :: "('w, 'b) Deps \<Rightarrow> bool" where
  "namesFromIdentity d =
     (\<forall>u u'. Name (ObjectMeta u) = Name (ObjectMeta u')
              \<and> Namespace (ObjectMeta u) = Namespace (ObjectMeta u')
        \<longrightarrow> GetRevisionDeploymentName d u = GetRevisionDeploymentName d u'
          \<and> GetRevisionPodName d u = GetRevisionPodName d u'
          \<and> GetRevisionAutoscalerName d u = GetRevisionAutoscalerName d u'
          \<and> GetRevisionNginxConfigMapName d u = GetRevisionNginxConfigMapName d u'
          \<and> GetElaK8SServiceNameForRevision d u = GetElaK8SServiceNameForRevision d u')"

subsection \<open>A concrete configuration\<close>

text \<open>
  client-go's \<open>cache.SplitMetaNamespaceKey\<close>: one part is a name without a namespace, two
  parts are namespace and name, anything else is an error.
\<close>

fun splitOn :: "char \<Rightarrow> string \<Rightarrow> string list" where
  "splitOn sep [] = [[]]"
| "splitOn sep (ch # cs) =
     (if ch = sep then [] # splitOn sep cs
      else (case splitOn sep cs of [] \<Rightarrow> [[ch]] | p # ps \<Rightarrow> (ch # p) # ps))"

definition splitMetaNamespaceKey :: "string \<Rightarrow> error + string \<times> string" where
  "splitMetaNamespaceKey key =
     (case splitOn CHR ''/'' key of
        [n] \<Rightarrow> Inr ([], n)
      | [ns, n] \<Rightarrow> Inr (ns, n)
      | parts \<Rightarrow> Inl (ErrorString ''unexpected key format''))"

definition exDeps :: "(string Store, string) Deps" where
  "exDeps =
     \<lparr>SplitMetaNamespaceKey = splitMetaNamespaceKey,
      GetOrCreateRevisionNamespace = (\<lambda>ns kc w. (Inr (ns @ ''-ela''), w)),
      GetElaNamespaceName = (\<lambda>ns. ns @ ''-ela''),
      GetRevisionDeploymentName = (\<lambda>u. Name (ObjectMeta u) @ ''-dep''),
      GetRevisionPodName = (\<lambda>u. Name (ObjectMeta u) @ ''-pod''),
      GetRevisionAutoscalerName = (\<lambda>u. Name (ObjectMeta u) @ ''-hpa''),
      GetRevisionNginxConfigMapName = (\<lambda>u. Name (ObjectMeta u) @ ''-cm''),
      GetElaK8SServiceNameForRevision = (\<lambda>u. Name (ObjectMeta u) @ ''-svc''),
      MakeElaPodSpec = (\<lambda>u. ''pod''),
      MakeElaDeployment = (\<lambda>u ns. \<lparr>Meta = newObjectMeta (Name (ObjectMeta u) @ ''-dep'') ns,
                                    Payload = DeploymentPayload ''dep'' []\<rparr>),
      MakeElaAutoscaler = (\<lambda>u ns. \<lparr>Meta = newObjectMeta (Name (ObjectMeta u) @ ''-hpa'') ns,
                                    Payload = AutoscalerPayload ''hpa''\<rparr>),
      MakeRevisionK8sService = (\<lambda>u ns. \<lparr>Meta = newObjectMeta (Name (ObjectMeta u) @ ''-svc'') ns,
                                         Payload = ServicePayload ''svc''\<rparr>),
      SchemeGroupVersion = ''elafros.dev/v1alpha1'',
      NginxConfigFile = ''conf'',
      UpstreamToAppServer = ''app'',
      UpStreamToQueue = ''queue'',
      ProxyPassToAppServer = ''passapp'',
      ProxyPassToQueue = ''passqueue''\<rparr>"

text \<open>A Revision \<open>r1\<close> in namespace \<open>ns\<close>, live and marked for deletion.\<close>

definition r1 :: Revision where
  "r1 = \<lparr>ObjectMeta = newObjectMeta ''r1'' ''ns'',
         Spec = \<lparr>SpecService = ''web''\<rparr>,
         Status = \<lparr>ServiceName = [], Conditions = []\<rparr>\<rparr>"

definition r1Deleted :: Revision where
  "r1Deleted = r1\<lparr>ObjectMeta := (ObjectMeta r1)\<lparr>DeletionTimestamp := Some 7\<rparr>\<rparr>"

text \<open>A store and cache that hold the Revision and no child.\<close>

definition storeWith :: "Revision \<Rightarrow> string Store" where
  "storeWith u =
     \<lparr>Objects = (\<lambda>key. None),
      StoredRevisions = [(Namespace (ObjectMeta u), Name (ObjectMeta u)) \<mapsto> u],
      CachedRevisions = [(Namespace (ObjectMeta u), Name (ObjectMeta u)) \<mapsto> u]\<rparr>"

definition emptyStore :: "string Store" where
  "emptyStore =
     \<lparr>Objects = (\<lambda>key. None), StoredRevisions = (\<lambda>key. None), CachedRevisions = (\<lambda>key. None)\<rparr>"

text \<open>A client whose delete calls all fail, and one whose cache and API are down.\<close>

definition failingDeleteClient :: "(string Store, string) RevisionControllerImpl" where
  "failingDeleteClient =
     storeClient\<lparr>kubeclientset :=
       storeKube\<lparr>ResourceDelete := (\<lambda>k ns n opts w. (Some (ErrorString ''delete refused''), w))\<rparr>\<rparr>"

definition downClient :: "(string Store, string) RevisionControllerImpl" where
  "downClient =
     \<lparr>kubeclientset =
        \<lparr>ResourceGet = (\<lambda>k ns n w. (Inl (ErrorString ''down''), w)),
         ResourceCreate = (\<lambda>k ns obj w. (Inl (ErrorString ''down''), w)),
         ResourceDelete = (\<lambda>k ns n opts w. (Some (ErrorString ''down''), w))\<rparr>,
      elaclientset =
        \<lparr>RevisionsGet = (\<lambda>ns n w. (Inl (ErrorString ''down''), w)),
         RevisionsUpdate = (\<lambda>ns u w. (Inl (ErrorString ''down''), w))\<rparr>,
      lister = (\<lambda>ns n w. Inl (ErrorString ''down''))\<rparr>"

text \<open>The stored Revision after its owner changed the spec, and a working copy with a status.\<close>

definition r1Changed :: Revision where
  "r1Changed = r1\<lparr>Spec := \<lparr>SpecService = ''web2''\<rparr>\<rparr>"

definition r1Working :: Revision where
  "r1Working =
     r1\<lparr>Status := \<lparr>ServiceName = ''r1-svc'',
                     Conditions = [condition ''Ready'' ''False'' ''Deploying'']\<rparr>\<rparr>"

text \<open>Dependencies whose namespace provisioning fails.\<close>

definition nsFailDeps :: "(string Store, string) Deps" where
  "nsFailDeps =
     exDeps\<lparr>GetOrCreateRevisionNamespace := (\<lambda>ns kc w. (Inl (ErrorString ''forbidden''), w))\<rparr>"

text \<open>A store that holds the Revision and its four children.\<close>

definition fullStore :: "string Store" where
  "fullStore =
     (storeWith r1)
       \<lparr>Objects :=
          [(Deployment, ''ns-ela'', ''r1-dep'') \<mapsto> deploymentOf exDeps r1 ''ns-ela'',
           (HorizontalPodAutoscaler, ''ns-ela'', ''r1-hpa'') \<mapsto> autoscalerOf exDeps r1 ''ns-ela'',
           (ConfigMap, ''ns-ela'', ''r1-cm'') \<mapsto> configMapOf exDeps r1 ''ns-ela'',
           (Service, ''ns-ela'', ''r1-svc'') \<mapsto> serviceOf exDeps r1 ''ns-ela'']\<rparr>"

text \<open>A client whose creates of autoscalers fail, everything else being the store's.\<close>

definition autoscalerFailClient :: "(string Store, string) RevisionControllerImpl" where
  "autoscalerFailClient =
     storeClient\<lparr>kubeclientset :=
       storeKube\<lparr>ResourceCreate :=
         (\<lambda>k ns obj w. if k = HorizontalPodAutoscaler then (Inl (ErrorString ''quota''), w)
                        else storeCreate k ns obj w)\<rparr>\<rparr>"

text \<open>The full store with the Revision marked for deletion.\<close>

definition fullStoreDeleted :: "string Store" where
  "fullStoreDeleted =
     fullStore\<lparr>StoredRevisions := [(''ns'', ''r1'') \<mapsto> r1Deleted],
                CachedRevisions := [(''ns'', ''r1'') \<mapsto> r1Deleted]\<rparr>"

text \<open>A store that holds the Revision, its deployment and its autoscaler.\<close>

definition halfStore :: "string Store" where
  "halfStore =
     (storeWith r1)
       \<lparr>Objects :=
          [(Deployment, ''ns-ela'', ''r1-dep'') \<mapsto> deploymentOf exDeps r1 ''ns-ela'',
           (HorizontalPodAutoscaler, ''ns-ela'', ''r1-hpa'') \<mapsto> autoscalerOf exDeps r1 ''ns-ela'']\<rparr>"

section \<open>Properties\<close>

subsection \<open>Basic facts about the state\<close>

lemma logPrintf_fields [simp]:
  "Calls (logPrintf f a s) = Calls s"
  "World (logPrintf f a s) = World s"
  "Logs (logPrintf f a s) = Logs s @ [Printf f a]"
  by (simp_all add: logPrintf_def)

lemma handleError_fields [simp]:
  "Calls (handleError f a s) = Calls s"
  "World (handleError f a s) = World s"
  "Logs (handleError f a s) = Logs s @ [HandleError f a]"
  by (simp_all add: handleError_def)

lemmas api_defs = apiGet_def apiCreate_def apiDelete_def revisionsGet_def revisionsUpdate_def

lemmas store_defs =
  storeClient_def storeKube_def storeEla_def storeGet_def storeCreate_def storeDelete_def
  storeRevisionsGet_def storeRevisionsUpdate_def storeLister_def initState_def
  notFound_def alreadyExists_def

lemmas payload_defs =
  podOf_def deploymentOf_def autoscalerOf_def configMapOf_def serviceOf_def
  appendOwnerReference_def NewControllerRef_def controllerKind_def newObjectMeta_def
  elaServiceLabel_def elaVersionLabel_def

lemmas example_defs =
  exDeps_def r1_def r1Deleted_def r1Changed_def r1Working_def storeWith_def emptyStore_def
  fullStore_def fullStoreDeleted_def condition_def foreground_def

subsection \<open>The child operations follow their protocols\<close>

lemma reconcileDeployment_protocol:
  "reconcileProtocol c Deployment ns (GetRevisionDeploymentName d u)
     (deploymentOf d u ns) (podCreate c ns (podOf d u ns)) s (reconcileDeployment d c u ns s)"
  by (simp add: reconcileProtocol_def reconcileDeployment_def deploymentOf_def podCreate_def
      podOf_def appendOwnerReference_def apiGet_def apiCreate_def Let_def
      split: prod.splits sum.splits)

lemma reconcileAutoscaler_protocol:
  "reconcileProtocol c HorizontalPodAutoscaler ns (GetRevisionAutoscalerName d u)
     (autoscalerOf d u ns) noCalls s (reconcileAutoscaler d c u ns s)"
  by (simp add: reconcileProtocol_def reconcileAutoscaler_def autoscalerOf_def noCalls_def
      apiGet_def apiCreate_def Let_def split: prod.splits sum.splits)

lemma reconcileNginxConfig_protocol:
  "reconcileProtocol c ConfigMap ns (GetRevisionNginxConfigMapName d u)
     (configMapOf d u ns) noCalls s (reconcileNginxConfig d c u ns s)"
  by (simp add: reconcileProtocol_def reconcileNginxConfig_def configMapOf_def noCalls_def
      MakeNginxConfigMap_def getNginxConfig_def apiGet_def apiCreate_def Let_def
      split: prod.splits sum.splits)

lemma reconcileService_protocol:
  "reconcileProtocol c Service ns (GetElaK8SServiceNameForRevision d u)
     (serviceOf d u ns) noCalls s
     (snd (fst (reconcileService d c u ns s)), snd (reconcileService d c u ns s))"
  by (simp add: reconcileProtocol_def reconcileService_def serviceOf_def noCalls_def
      apiGet_def apiCreate_def Let_def split: prod.splits sum.splits)

lemma reconcileService_name:
  "snd (fst (reconcileService d c u ns s)) = None
   \<Longrightarrow> fst (fst (reconcileService d c u ns s)) = GetElaK8SServiceNameForRevision d u"
  by (simp add: reconcileService_def apiGet_def apiCreate_def Let_def
      split: prod.splits sum.splits if_splits)

lemma payloads_owned:
  "ownedBy u (podOf d u ns)" "ownedBy u (deploymentOf d u ns)"
  "ownedBy u (autoscalerOf d u ns)" "ownedBy u (configMapOf d u ns)"
  "ownedBy u (serviceOf d u ns)"
  by (simp_all add: ownedBy_def payload_defs)

lemma deleteDeployment_protocol:
  "deleteProtocol c Deployment ns (GetRevisionDeploymentName d u) s
     (deleteDeployment d c u ns s)"
  by (simp add: deleteProtocol_def deleteDeployment_def deleteOutcome_def
      apiGet_def apiDelete_def Let_def split: prod.splits sum.splits option.splits)

lemma deleteAutoscaler_protocol:
  "deleteProtocol c HorizontalPodAutoscaler ns (GetRevisionAutoscalerName d u) s
     (deleteAutoscaler d c u ns s)"
  by (simp add: deleteProtocol_def deleteAutoscaler_def deleteOutcome_def
      apiGet_def apiDelete_def Let_def split: prod.splits sum.splits option.splits)

lemma deleteNginxConfig_protocol:
  "deleteProtocol c ConfigMap ns (GetRevisionNginxConfigMapName d u) s
     (deleteNginxConfig d c u ns s)"
  by (simp add: deleteProtocol_def deleteNginxConfig_def deleteOutcome_def
      apiGet_def apiDelete_def Let_def split: prod.splits sum.splits option.splits)

lemma deleteService_direct:
  "deleteDirect c Service ns (GetElaK8SServiceNameForRevision d u) s
     (deleteService d c u ns s)"
  by (simp add: deleteDirect_def deleteService_def deleteOutcome_def
      apiDelete_def Let_def split: prod.splits option.splits)

lemmas op_defs =
  reconcileDeployment_def reconcileAutoscaler_def reconcileNginxConfig_def
  reconcileService_def deleteDeployment_def deleteAutoscaler_def deleteNginxConfig_def
  deleteService_def updateStatus_def MakeNginxConfigMap_def getNginxConfig_def

subsection \<open>The paths as chains of their steps\<close>

lemma continues_refl [simp]: "continues s s"
  by (simp add: continues_def)

lemma continues_logPrintf [simp]: "continues s (logPrintf f a s)"
  by (simp add: continues_def)

lemma continues_logPrintf2 [simp]: "continues s (logPrintf f a (logPrintf g b s))"
  by (simp add: continues_def)

lemma createK8SResources_abort:
  assumes "fst (reconcileDeployment d c u ns s) = Some e"
  shows "createK8SResources d c u ns s
         = (Some e, u, logPrintf ''Failed to create a deployment: %s'' [AErr e]
                         (snd (reconcileDeployment d c u ns s)))"
  using assms by (cases "reconcileDeployment d c u ns s") (simp add: createK8SResources_def)

lemma createK8SResources_chain:
  assumes "fst (reconcileDeployment d c u ns s) = None"
  shows "\<exists>sC sS sU sF u'.
      continues (snd (reconcileAutoscaler d c u ns (snd (reconcileDeployment d c u ns s)))) sC
    \<and> loggedIfError (fst (reconcileAutoscaler d c u ns (snd (reconcileDeployment d c u ns s))))
        ''Failed to create autoscaler: %s'' sC
    \<and> continues (snd (reconcileNginxConfig d c u ns sC)) sS
    \<and> loggedIfError (fst (reconcileNginxConfig d c u ns sC))
        ''Failed to create nginx configmap: %s'' sS
    \<and> continues (snd (reconcileService d c u ns sS)) sU
    \<and> loggedIfError (snd (fst (reconcileService d c u ns sS)))
        ''Failed to create k8s service: %s'' sU
    \<and> u' = u\<lparr>Status :=
               \<lparr>ServiceName = (if snd (fst (reconcileService d c u ns sS)) = None
                               then fst (fst (reconcileService d c u ns sS))
                               else ServiceName (Status u)),
                Conditions = [condition ''Ready'' ''False'' ''Deploying'']\<rparr>\<rparr>
    \<and> createK8SResources d c u ns s = (errOf (fst (updateStatus c u' sU)), u', sF)
    \<and> continues (snd (updateStatus c u' sU)) sF
    \<and> loggedIfError (errOf (fst (updateStatus c u' sU)))
        ''Error recording build completion: %s'' sF"
proof -
  define s1 where "s1 = snd (reconcileDeployment d c u ns s)"
  obtain eA sA where A: "reconcileAutoscaler d c u ns s1 = (eA, sA)" by (rule prod.exhaust)
  define sC where
    "sC = (case eA of Some e \<Rightarrow> logPrintf ''Failed to create autoscaler: %s'' [AErr e] sA
           | None \<Rightarrow> sA)"
  obtain eC sC' where C: "reconcileNginxConfig d c u ns sC = (eC, sC')" by (rule prod.exhaust)
  define sS where
    "sS = (case eC of Some e \<Rightarrow> logPrintf ''Failed to create nginx configmap: %s'' [AErr e] sC'
           | None \<Rightarrow> sC')"
  obtain n eS sS' where S: "reconcileService d c u ns sS = ((n, eS), sS')"
    by (cases "reconcileService d c u ns sS") auto
  define u1 where
    "u1 = (case eS of Some e \<Rightarrow> u | None \<Rightarrow> u\<lparr>Status := (Status u)\<lparr>ServiceName := n\<rparr>\<rparr>)"
  define s4 where
    "s4 = (case eS of Some e \<Rightarrow> logPrintf ''Failed to create k8s service: %s'' [AErr e] sS'
           | None \<Rightarrow> sS')"
  define u2 where
    "u2 = u1\<lparr>Status := (Status u1)\<lparr>Conditions := [condition ''Ready'' ''False'' ''Deploying'']\<rparr>\<rparr>"
  define sU where
    "sU = logPrintf ''2. Updating status with the following conditions %+v''
            [AConds (Conditions (Status u2))] s4"
  obtain r sU' where U: "updateStatus c u2 sU = (r, sU')" by (rule prod.exhaust)
  define sF where
    "sF = (case r of Inl err \<Rightarrow> logPrintf ''Error recording build completion: %s'' [AErr err] sU'
           | Inr v \<Rightarrow> sU')"
  have D: "reconcileDeployment d c u ns s = (None, s1)"
    using assms by (simp add: s1_def prod_eq_iff)
  have run: "createK8SResources d c u ns s = (errOf r, u2, sF)"
    unfolding createK8SResources_def D
    apply (simp only: split_conv option.case Let_def A)
    apply (fold sC_def)
    apply (simp only: split_conv option.case Let_def C)
    apply (fold sS_def)
    apply (simp only: split_conv option.case Let_def S)
    using U
    apply (cases eS; cases r; simp add: u1_def s4_def u2_def sU_def sF_def)
    done
  have u2_eq: "u2 = u\<lparr>Status := \<lparr>ServiceName = (if eS = None then n else ServiceName (Status u)),
                                  Conditions = [condition ''Ready'' ''False'' ''Deploying'']\<rparr>\<rparr>"
    by (simp add: u2_def u1_def split: option.splits)
  have steps:
    "continues sA sC" "loggedIfError eA ''Failed to create autoscaler: %s'' sC"
    "continues sC' sS" "loggedIfError eC ''Failed to create nginx configmap: %s'' sS"
    "continues sS' sU" "loggedIfError eS ''Failed to create k8s service: %s'' sU"
    "continues sU' sF" "loggedIfError (errOf r) ''Error recording build completion: %s'' sF"
    by (simp_all add: sC_def sS_def sU_def s4_def sF_def loggedIfError_def continues_def
        split: option.splits sum.splits)
  show ?thesis
    apply (rule exI [of _ sC], rule exI [of _ sS], rule exI [of _ sU], rule exI [of _ sF],
        rule exI [of _ u2])
    apply (simp only: s1_def [symmetric] A C S U fst_conv snd_conv)
    apply (intro conjI steps run u2_eq)
    done
qed

lemma deleteK8SResources_chain:
  "\<exists>s0 s1 s2 s3 s4 sF u'.
      continues s s0
    \<and> continues (snd (deleteDeployment d c u ns s0)) s1
    \<and> loggedIfError (fst (deleteDeployment d c u ns s0)) ''Failed to delete a deployment: %s'' s1
    \<and> continues (snd (deleteAutoscaler d c u ns s1)) s2
    \<and> loggedIfError (fst (deleteAutoscaler d c u ns s1)) ''Failed to delete autoscaler: %s'' s2
    \<and> continues (snd (deleteNginxConfig d c u ns s2)) s3
    \<and> loggedIfError (fst (deleteNginxConfig d c u ns s2)) ''Failed to delete configmap: %s'' s3
    \<and> continues (snd (deleteService d c u ns s3)) s4
    \<and> loggedIfError (fst (deleteService d c u ns s3)) ''Failed to delete k8s service: %s'' s4
    \<and> u' = u\<lparr>Status := (Status u)\<lparr>Conditions := [condition ''Ready'' ''False'' ''Inactive'']\<rparr>\<rparr>
    \<and> deleteK8SResources d c u ns s = (errOf (fst (updateStatus c u' s4)), u', sF)
    \<and> continues (snd (updateStatus c u' s4)) sF
    \<and> loggedIfError (errOf (fst (updateStatus c u' s4)))
        ''Error recording build completion: %s'' sF"
proof -
  define s0 where
    "s0 = logPrintf ''Deleting the resources for %s\<newline>'' [AStr (Name (ObjectMeta u))] s"
  obtain e1 t1 where D: "deleteDeployment d c u ns s0 = (e1, t1)" by (rule prod.exhaust)
  define s1 where
    "s1 = logPrintf ''Deleted deployment'' []
            (case e1 of Some e \<Rightarrow> logPrintf ''Failed to delete a deployment: %s'' [AErr e] t1
             | None \<Rightarrow> t1)"
  obtain e2 t2 where A: "deleteAutoscaler d c u ns s1 = (e2, t2)" by (rule prod.exhaust)
  define s2 where
    "s2 = logPrintf ''Deleted autoscaler'' []
            (case e2 of Some e \<Rightarrow> logPrintf ''Failed to delete autoscaler: %s'' [AErr e] t2
             | None \<Rightarrow> t2)"
  obtain e3 t3 where C: "deleteNginxConfig d c u ns s2 = (e3, t3)" by (rule prod.exhaust)
  define s3 where
    "s3 = logPrintf ''Deleted nginx configmap'' []
            (case e3 of Some e \<Rightarrow> logPrintf ''Failed to delete configmap: %s'' [AErr e] t3
             | None \<Rightarrow> t3)"
  obtain e4 t4 where S: "deleteService d c u ns s3 = (e4, t4)" by (rule prod.exhaust)
  define u2 where
    "u2 = u\<lparr>Status := (Status u)\<lparr>Conditions := [condition ''Ready'' ''False'' ''Inactive'']\<rparr>\<rparr>"
  define s4 where
    "s4 = logPrintf ''2. Updating status with the following conditions %+v''
            [AConds (Conditions (Status u2))]
            (logPrintf ''Deleted service'' []
               (case e4 of Some e \<Rightarrow> logPrintf ''Failed to delete k8s service: %s'' [AErr e] t4
                | None \<Rightarrow> t4))"
  obtain r sU' where U: "updateStatus c u2 s4 = (r, sU')" by (rule prod.exhaust)
  define sF where
    "sF = (case r of Inl err \<Rightarrow> logPrintf ''Error recording build completion: %s'' [AErr err] sU'
           | Inr v \<Rightarrow> sU')"
  have run: "deleteK8SResources d c u ns s = (errOf r, u2, sF)"
    unfolding deleteK8SResources_def
    apply (simp only: Let_def)
    apply (fold s0_def)
    apply (simp only: split_conv D)
    apply (fold s1_def)
    apply (simp only: split_conv A)
    apply (fold s2_def)
    apply (simp only: split_conv C)
    apply (fold s3_def)
    apply (simp only: split_conv S)
    apply (fold u2_def)
    apply (fold s4_def)
    apply (simp only: split_conv U)
    apply (cases r; simp add: sF_def)
    done
  have steps:
    "continues s s0"
    "continues t1 s1" "loggedIfError e1 ''Failed to delete a deployment: %s'' s1"
    "continues t2 s2" "loggedIfError e2 ''Failed to delete autoscaler: %s'' s2"
    "continues t3 s3" "loggedIfError e3 ''Failed to delete configmap: %s'' s3"
    "continues t4 s4" "loggedIfError e4 ''Failed to delete k8s service: %s'' s4"
    "continues sU' sF" "loggedIfError (errOf r) ''Error recording build completion: %s'' sF"
    by (simp_all add: s0_def s1_def s2_def s3_def s4_def sF_def loggedIfError_def continues_def
        split: option.splits sum.splits)
  show ?thesis
    apply (rule exI [of _ s0], rule exI [of _ s1], rule exI [of _ s2], rule exI [of _ s3],
        rule exI [of _ s4], rule exI [of _ sF], rule exI [of _ u2])
    apply (simp only: u2_def [symmetric] D A C S U fst_conv snd_conv)
    apply (intro conjI steps run refl)
    done
qed

subsection \<open>The operations on the resource store\<close>

lemma creates_append [simp]: "creates (xs @ ys) = creates xs @ creates ys"
  by (induction xs rule: creates.induct) simp_all

lemma deletes_append [simp]: "deletes (xs @ ys) = deletes xs @ deletes ys"
  by (induction xs rule: deletes.induct) simp_all

lemma ensure_other [simp]: "k' \<noteq> k \<Longrightarrow> ensure k v m k' = m k'"
  by (simp add: ensure_def split: option.splits)

lemma ensure_same: "ensure k v m k = Some (case m k of None \<Rightarrow> v | Some old \<Rightarrow> old)"
  by (simp add: ensure_def split: option.splits)

lemma ensure_present [simp]: "m k = Some old \<Longrightarrow> ensure k v m = m"
  by (simp add: ensure_def)

lemma store_reconcileDeployment:
  assumes "Name (Meta (MakeElaDeployment d u ns)) = GetRevisionDeploymentName d u"
  shows "fst (reconcileDeployment d storeClient u ns s) = None"
    and "Objects (World (snd (reconcileDeployment d storeClient u ns s)))
         = (case Objects (World s) (Deployment, ns, GetRevisionDeploymentName d u) of
              None \<Rightarrow>
                ensure (Deployment, ns, GetRevisionDeploymentName d u) (deploymentOf d u ns)
                  (ensure (Pod, ns, GetRevisionPodName d u) (podOf d u ns) (Objects (World s)))
            | Some old \<Rightarrow> Objects (World s))"
    and "StoredRevisions (World (snd (reconcileDeployment d storeClient u ns s)))
         = StoredRevisions (World s)"
    and "creates (Calls (snd (reconcileDeployment d storeClient u ns s)))
         = creates (Calls s)
           @ (if Objects (World s) (Deployment, ns, GetRevisionDeploymentName d u) = None
              then [(Pod, ns, GetRevisionPodName d u),
                    (Deployment, ns, GetRevisionDeploymentName d u)]
              else [])"
  using assms reconcileDeployment_protocol [of storeClient ns d u s]
  by (auto simp: reconcileProtocol_def podCreate_def store_defs payload_defs ensure_def
      split: option.splits prod.splits)

lemma store_reconcileAutoscaler:
  assumes "Name (Meta (MakeElaAutoscaler d u ns)) = GetRevisionAutoscalerName d u"
  shows "fst (reconcileAutoscaler d storeClient u ns s) = None"
    and "Objects (World (snd (reconcileAutoscaler d storeClient u ns s)))
         = ensure (HorizontalPodAutoscaler, ns, GetRevisionAutoscalerName d u)
             (autoscalerOf d u ns) (Objects (World s))"
    and "StoredRevisions (World (snd (reconcileAutoscaler d storeClient u ns s)))
         = StoredRevisions (World s)"
    and "creates (Calls (snd (reconcileAutoscaler d storeClient u ns s)))
         = creates (Calls s)
           @ (if Objects (World s) (HorizontalPodAutoscaler, ns, GetRevisionAutoscalerName d u)
                 = None
              then [(HorizontalPodAutoscaler, ns, GetRevisionAutoscalerName d u)] else [])"
  using assms reconcileAutoscaler_protocol [of storeClient ns d u s]
  by (auto simp: reconcileProtocol_def noCalls_def store_defs payload_defs ensure_def
      split: option.splits prod.splits)

lemma store_reconcileNginxConfig:
  shows "fst (reconcileNginxConfig d storeClient u ns s) = None"
    and "Objects (World (snd (reconcileNginxConfig d storeClient u ns s)))
         = ensure (ConfigMap, ns, GetRevisionNginxConfigMapName d u)
             (configMapOf d u ns) (Objects (World s))"
    and "StoredRevisions (World (snd (reconcileNginxConfig d storeClient u ns s)))
         = StoredRevisions (World s)"
    and "creates (Calls (snd (reconcileNginxConfig d storeClient u ns s)))
         = creates (Calls s)
           @ (if Objects (World s) (ConfigMap, ns, GetRevisionNginxConfigMapName d u) = None
              then [(ConfigMap, ns, GetRevisionNginxConfigMapName d u)] else [])"
  using reconcileNginxConfig_protocol [of storeClient ns d u s]
  by (auto simp: reconcileProtocol_def noCalls_def store_defs payload_defs ensure_def
      split: option.splits prod.splits)

lemma store_reconcileService:
  assumes "Name (Meta (MakeRevisionK8sService d u ns)) = GetElaK8SServiceNameForRevision d u"
  shows "fst (reconcileService d storeClient u ns s)
         = (GetElaK8SServiceNameForRevision d u, None)"
    and "Objects (World (snd (reconcileService d storeClient u ns s)))
         = ensure (Service, ns, GetElaK8SServiceNameForRevision d u)
             (serviceOf d u ns) (Objects (World s))"
    and "StoredRevisions (World (snd (reconcileService d storeClient u ns s)))
         = StoredRevisions (World s)"
    and "creates (Calls (snd (reconcileService d storeClient u ns s)))
         = creates (Calls s)
           @ (if Objects (World s) (Service, ns, GetElaK8SServiceNameForRevision d u) = None
              then [(Service, ns, GetElaK8SServiceNameForRevision d u)] else [])"
proof -
  from assms reconcileService_protocol [of storeClient ns d u s]
  have p: "snd (fst (reconcileService d storeClient u ns s)) = None
    \<and> Objects (World (snd (reconcileService d storeClient u ns s)))
         = ensure (Service, ns, GetElaK8SServiceNameForRevision d u)
             (serviceOf d u ns) (Objects (World s))
    \<and> StoredRevisions (World (snd (reconcileService d storeClient u ns s)))
         = StoredRevisions (World s)
    \<and> creates (Calls (snd (reconcileService d storeClient u ns s)))
         = creates (Calls s)
           @ (if Objects (World s) (Service, ns, GetElaK8SServiceNameForRevision d u) = None
              then [(Service, ns, GetElaK8SServiceNameForRevision d u)] else [])"
    by (auto simp: reconcileProtocol_def noCalls_def store_defs payload_defs ensure_def
        split: option.splits prod.splits)
  then show "Objects (World (snd (reconcileService d storeClient u ns s)))
         = ensure (Service, ns, GetElaK8SServiceNameForRevision d u)
             (serviceOf d u ns) (Objects (World s))"
    and "StoredRevisions (World (snd (reconcileService d storeClient u ns s)))
         = StoredRevisions (World s)"
    and "creates (Calls (snd (reconcileService d storeClient u ns s)))
         = creates (Calls s)
           @ (if Objects (World s) (Service, ns, GetElaK8SServiceNameForRevision d u) = None
              then [(Service, ns, GetElaK8SServiceNameForRevision d u)] else [])"
    by simp_all
  from p reconcileService_name [of d storeClient u ns s]
  show "fst (reconcileService d storeClient u ns s)
         = (GetElaK8SServiceNameForRevision d u, None)"
    by (simp add: prod_eq_iff)
qed

lemma store_updateStatus:
  shows "Objects (World (snd (updateStatus storeClient u s))) = Objects (World s)"
    and "creates (Calls (snd (updateStatus storeClient u s))) = creates (Calls s)"
    and "holdsRevision (World s) u \<Longrightarrow> errOf (fst (updateStatus storeClient u s)) = None"
    and "holdsRevision (World s) u \<Longrightarrow> holdsRevision (World (snd (updateStatus storeClient u s))) u"
    and "holdsRevision (World s) u \<Longrightarrow>
           StoredRevisions (World (snd (updateStatus storeClient u s)))
             (Namespace (ObjectMeta u), Name (ObjectMeta u))
           = Some ((the (StoredRevisions (World s) (Namespace (ObjectMeta u), Name (ObjectMeta u))))
                     \<lparr>Status := Status u\<rparr>)"
  by (auto simp: updateStatus_def api_defs store_defs holdsRevision_def Let_def
      split: option.splits prod.splits)

lemma store_delete_absent:
  "Objects (World s) (Deployment, ns, GetRevisionDeploymentName d u) = None \<Longrightarrow>
     fst (deleteDeployment d storeClient u ns s) = None
     \<and> World (snd (deleteDeployment d storeClient u ns s)) = World s
     \<and> deletes (Calls (snd (deleteDeployment d storeClient u ns s))) = deletes (Calls s)"
  "Objects (World s) (HorizontalPodAutoscaler, ns, GetRevisionAutoscalerName d u) = None \<Longrightarrow>
     fst (deleteAutoscaler d storeClient u ns s) = None
     \<and> World (snd (deleteAutoscaler d storeClient u ns s)) = World s
     \<and> deletes (Calls (snd (deleteAutoscaler d storeClient u ns s))) = deletes (Calls s)"
  "Objects (World s) (ConfigMap, ns, GetRevisionNginxConfigMapName d u) = None \<Longrightarrow>
     fst (deleteNginxConfig d storeClient u ns s) = None
     \<and> World (snd (deleteNginxConfig d storeClient u ns s)) = World s
     \<and> deletes (Calls (snd (deleteNginxConfig d storeClient u ns s))) = deletes (Calls s)"
  "Objects (World s) (Service, ns, GetElaK8SServiceNameForRevision d u) = None \<Longrightarrow>
     fst (deleteService d storeClient u ns s) = None
     \<and> World (snd (deleteService d storeClient u ns s)) = World s"
  by (simp_all add: op_defs api_defs store_defs Let_def)

lemma store_createK8SResources:
  assumes P: "payloadsNamed d"
  shows "fst (snd (createK8SResources d storeClient u ns s))
         = u\<lparr>Status := \<lparr>ServiceName = GetElaK8SServiceNameForRevision d u,
                          Conditions = [condition ''Ready'' ''False'' ''Deploying'']\<rparr>\<rparr>"
    and "Objects (World (snd (snd (createK8SResources d storeClient u ns s))))
         = afterCreatePath d u ns (Objects (World s))"
    and "creates (Calls (snd (snd (createK8SResources d storeClient u ns s))))
         = creates (Calls s) @ createdByCreatePath d u ns (Objects (World s))"
    and "holdsRevision (World s) u \<Longrightarrow> fst (createK8SResources d storeClient u ns s) = None"
    and "holdsRevision (World s) u \<Longrightarrow>
           holdsRevision (World (snd (snd (createK8SResources d storeClient u ns s)))) u"
proof -
  let ?m = "Objects (World s)"
  let ?s1 = "snd (reconcileDeployment d storeClient u ns s)"
  from P have names:
    "Name (Meta (MakeElaDeployment d u ns)) = GetRevisionDeploymentName d u"
    "Name (Meta (MakeElaAutoscaler d u ns)) = GetRevisionAutoscalerName d u"
    "Name (Meta (MakeRevisionK8sService d u ns)) = GetElaK8SServiceNameForRevision d u"
    by (simp_all add: payloadsNamed_def)
  note D = store_reconcileDeployment [OF names(1), where s = s]
  from createK8SResources_chain [OF D(1)]
  obtain sC sS sU sF u' where
    cA: "continues (snd (reconcileAutoscaler d storeClient u ns ?s1)) sC" and
    cC: "continues (snd (reconcileNginxConfig d storeClient u ns sC)) sS" and
    cS: "continues (snd (reconcileService d storeClient u ns sS)) sU" and
    u': "u' = u\<lparr>Status :=
               \<lparr>ServiceName = (if snd (fst (reconcileService d storeClient u ns sS)) = None
                               then fst (fst (reconcileService d storeClient u ns sS))
                               else ServiceName (Status u)),
                Conditions = [condition ''Ready'' ''False'' ''Deploying'']\<rparr>\<rparr>" and
    run: "createK8SResources d storeClient u ns s
          = (errOf (fst (updateStatus storeClient u' sU)), u', sF)" and
    cU: "continues (snd (updateStatus storeClient u' sU)) sF"
    by blast
  note A = store_reconcileAutoscaler [OF names(2), where s = ?s1]
  note C = store_reconcileNginxConfig [where d = d and u = u and ns = ns and s = sC]
  note S = store_reconcileService [OF names(3), where s = sS]
  note U = store_updateStatus [where u = u' and s = sU]
  have u'_eq: "u' = u\<lparr>Status := \<lparr>ServiceName = GetElaK8SServiceNameForRevision d u,
                          Conditions = [condition ''Ready'' ''False'' ''Deploying'']\<rparr>\<rparr>"
    using u' S(1) by simp
  have id: "Namespace (ObjectMeta u') = Namespace (ObjectMeta u)"
    "Name (ObjectMeta u') = Name (ObjectMeta u)"
    by (simp_all add: u'_eq)
  have oC: "Objects (World sC)
            = ensure (HorizontalPodAutoscaler, ns, GetRevisionAutoscalerName d u)
                (autoscalerOf d u ns) (Objects (World ?s1))"
    using cA A(2) by (simp add: continues_def)
  have oS: "Objects (World sS)
            = ensure (ConfigMap, ns, GetRevisionNginxConfigMapName d u) (configMapOf d u ns)
                (Objects (World sC))"
    using cC C(2) by (simp add: continues_def)
  have oU: "Objects (World sU)
            = ensure (Service, ns, GetElaK8SServiceNameForRevision d u) (serviceOf d u ns)
                (Objects (World sS))"
    using cS S(2) by (simp add: continues_def)
  have oF: "Objects (World sF) = Objects (World sU)"
    using cU U(1) by (simp add: continues_def)
  have rU: "StoredRevisions (World sU) = StoredRevisions (World s)"
    using cA cC cS D(3) A(3) C(3) S(3) by (simp add: continues_def)
  have kC: "creates (Calls sC)
            = creates (Calls ?s1)
              @ (if Objects (World ?s1) (HorizontalPodAutoscaler, ns, GetRevisionAutoscalerName d u)
                    = None
                 then [(HorizontalPodAutoscaler, ns, GetRevisionAutoscalerName d u)] else [])"
    using cA A(4) by (simp add: continues_def)
  have kS: "creates (Calls sS)
            = creates (Calls sC)
              @ (if Objects (World sC) (ConfigMap, ns, GetRevisionNginxConfigMapName d u) = None
                 then [(ConfigMap, ns, GetRevisionNginxConfigMapName d u)] else [])"
    using cC C(4) by (simp add: continues_def)
  have kU: "creates (Calls sU)
            = creates (Calls sS)
              @ (if Objects (World sS) (Service, ns, GetElaK8SServiceNameForRevision d u) = None
                 then [(Service, ns, GetElaK8SServiceNameForRevision d u)] else [])"
    using cS S(4) by (simp add: continues_def)
  have kF: "creates (Calls sF) = creates (Calls sU)"
    using cU U(2) by (simp add: continues_def)
  have absent:
    "Objects (World ?s1) (HorizontalPodAutoscaler, ns, GetRevisionAutoscalerName d u)
       = ?m (HorizontalPodAutoscaler, ns, GetRevisionAutoscalerName d u)"
    "Objects (World sC) (ConfigMap, ns, GetRevisionNginxConfigMapName d u)
       = ?m (ConfigMap, ns, GetRevisionNginxConfigMapName d u)"
    "Objects (World sS) (Service, ns, GetElaK8SServiceNameForRevision d u)
       = ?m (Service, ns, GetElaK8SServiceNameForRevision d u)"
    by (simp_all add: oS oC D(2) split: option.splits)
  show "fst (snd (createK8SResources d storeClient u ns s))
         = u\<lparr>Status := \<lparr>ServiceName = GetElaK8SServiceNameForRevision d u,
                          Conditions = [condition ''Ready'' ''False'' ''Deploying'']\<rparr>\<rparr>"
    using run u'_eq by simp
  show "Objects (World (snd (snd (createK8SResources d storeClient u ns s))))
         = afterCreatePath d u ns ?m"
    by (simp add: run oF oU oS oC D(2) afterCreatePath_def)
  show "creates (Calls (snd (snd (createK8SResources d storeClient u ns s))))
         = creates (Calls s) @ createdByCreatePath d u ns ?m"
    by (simp add: run kF kU kS kC D(4) absent createdByCreatePath_def)
  {
    assume h: "holdsRevision (World s) u"
    then have hU: "holdsRevision (World sU) u'"
      by (simp add: holdsRevision_def rU id split: option.splits)
    from U(3) [OF hU] show "fst (createK8SResources d storeClient u ns s) = None"
      by (simp add: run)
    from U(4) [OF hU] cU
    show "holdsRevision (World (snd (snd (createK8SResources d storeClient u ns s)))) u"
      by (simp add: run holdsRevision_def id continues_def split: option.splits)
  }
qed

lemma afterCreatePath_children:
  "afterCreatePath d u ns m (Deployment, ns, GetRevisionDeploymentName d u)
     = Some (case m (Deployment, ns, GetRevisionDeploymentName d u) of
               None \<Rightarrow> deploymentOf d u ns | Some old \<Rightarrow> old)"
  "afterCreatePath d u ns m (HorizontalPodAutoscaler, ns, GetRevisionAutoscalerName d u)
     = Some (case m (HorizontalPodAutoscaler, ns, GetRevisionAutoscalerName d u) of
               None \<Rightarrow> autoscalerOf d u ns | Some old \<Rightarrow> old)"
  "afterCreatePath d u ns m (ConfigMap, ns, GetRevisionNginxConfigMapName d u)
     = Some (case m (ConfigMap, ns, GetRevisionNginxConfigMapName d u) of
               None \<Rightarrow> configMapOf d u ns | Some old \<Rightarrow> old)"
  "afterCreatePath d u ns m (Service, ns, GetElaK8SServiceNameForRevision d u)
     = Some (case m (Service, ns, GetElaK8SServiceNameForRevision d u) of
               None \<Rightarrow> serviceOf d u ns | Some old \<Rightarrow> old)"
  by (simp_all add: afterCreatePath_def ensure_same split: option.splits)

lemma afterCreatePath_idem:
  assumes "GetRevisionDeploymentName d u' = GetRevisionDeploymentName d u"
    "GetRevisionAutoscalerName d u' = GetRevisionAutoscalerName d u"
    "GetRevisionNginxConfigMapName d u' = GetRevisionNginxConfigMapName d u"
    "GetElaK8SServiceNameForRevision d u' = GetElaK8SServiceNameForRevision d u"
  shows "afterCreatePath d u' ns (afterCreatePath d u ns m) = afterCreatePath d u ns m"
    and "createdByCreatePath d u' ns (afterCreatePath d u ns m) = []"
  using assms afterCreatePath_children [where d = d and u = u and ns = ns and m = m]
  by (simp_all add: afterCreatePath_def [where u = u'] createdByCreatePath_def)


lemma store_deleteK8SResources_clean:
  assumes absent: "list_all (\<lambda>key. Objects (World s) key = None) (childKeys d u ns)"
    and held: "holdsRevision (World s) u"
  shows "fst (deleteK8SResources d storeClient u ns s) = None"
    and "Objects (World (snd (snd (deleteK8SResources d storeClient u ns s)))) = Objects (World s)"
proof -
  from deleteK8SResources_chain [of s d storeClient u ns]
  obtain s0 s1 s2 s3 s4 sF u' where
    c0: "continues s s0" and
    c1: "continues (snd (deleteDeployment d storeClient u ns s0)) s1" and
    c2: "continues (snd (deleteAutoscaler d storeClient u ns s1)) s2" and
    c3: "continues (snd (deleteNginxConfig d storeClient u ns s2)) s3" and
    c4: "continues (snd (deleteService d storeClient u ns s3)) s4" and
    u': "u' = u\<lparr>Status := (Status u)\<lparr>Conditions := [condition ''Ready'' ''False'' ''Inactive'']\<rparr>\<rparr>" and
    run: "deleteK8SResources d storeClient u ns s
          = (errOf (fst (updateStatus storeClient u' s4)), u', sF)" and
    cU: "continues (snd (updateStatus storeClient u' s4)) sF"
    by blast
  from absent have a:
    "Objects (World s) (Deployment, ns, GetRevisionDeploymentName d u) = None"
    "Objects (World s) (HorizontalPodAutoscaler, ns, GetRevisionAutoscalerName d u) = None"
    "Objects (World s) (ConfigMap, ns, GetRevisionNginxConfigMapName d u) = None"
    "Objects (World s) (Service, ns, GetElaK8SServiceNameForRevision d u) = None"
    by (simp_all add: childKeys_def)
  have w0: "World s0 = World s" using c0 by (simp add: continues_def)
  have w1: "World s1 = World s"
    using c1 store_delete_absent(1) [of s0 ns d u] a(1) w0 by (simp add: continues_def)
  have w2: "World s2 = World s"
    using c2 store_delete_absent(2) [of s1 ns d u] a(2) w1 by (simp add: continues_def)
  have w3: "World s3 = World s"
    using c3 store_delete_absent(3) [of s2 ns d u] a(3) w2 by (simp add: continues_def)
  have w4: "World s4 = World s"
    using c4 store_delete_absent(4) [of s3 ns d u] a(4) w3 by (simp add: continues_def)
  have hU: "holdsRevision (World s4) u'"
    using held by (simp add: holdsRevision_def w4 u' split: option.splits)
  from store_updateStatus(3) [OF hU]
  show "fst (deleteK8SResources d storeClient u ns s) = None"
    by (simp add: run)
  from store_updateStatus(1) [where u = u' and s = s4] cU
  show "Objects (World (snd (snd (deleteK8SResources d storeClient u ns s)))) = Objects (World s)"
    by (simp add: run w4 continues_def)
qed

lemma reconcileWithImage_create:
  assumes "DeletionTimestamp (ObjectMeta u) = None"
  shows "\<exists>s'. continues s s'
    \<and> reconcileWithImage d c u ns s
      = (Returned (fst (createK8SResources d c u
                          (GetElaNamespaceName d (Namespace (ObjectMeta u))) s')),
         snd (createK8SResources d c u (GetElaNamespaceName d (Namespace (ObjectMeta u))) s'))"
  using assms
  by (intro exI [of _ "logPrintf ''Creating or reconciling resources for %s\<newline>''
                         [AStr (Name (ObjectMeta u))]
                         (logPrintf ''Check the deletionTimestamp: %s\<newline>''
                            [ATime None] s)"])
     (simp add: reconcileWithImage_def Accessor_def Let_def continues_def split: prod.splits)

lemma reconcileWithImage_delete:
  assumes "DeletionTimestamp (ObjectMeta u) \<noteq> None"
  shows "\<exists>s'. continues s s'
    \<and> reconcileWithImage d c u ns s
      = (Returned (fst (deleteK8SResources d c u
                          (GetElaNamespaceName d (Namespace (ObjectMeta u))) s')),
         snd (deleteK8SResources d c u (GetElaNamespaceName d (Namespace (ObjectMeta u))) s'))"
proof -
  from assms obtain t where t: "DeletionTimestamp (ObjectMeta u) = Some t"
    by blast
  show ?thesis
    by (rule exI [of _ "logPrintf ''Check the deletionTimestamp: %s\<newline>''
                            [ATime (DeletionTimestamp (ObjectMeta u))] s"])
       (simp add: reconcileWithImage_def Accessor_def Let_def t split: prod.splits)
qed

subsection \<open>The kinds of object the create path creates\<close>

lemma reconcileDeployment_kinds:
  "\<exists>X. map fst (creates (Calls (snd (reconcileDeployment d c u ns s))))
         = map fst (creates (Calls s)) @ X
       \<and> (X = [] \<or> X = [Pod, Deployment])"
  by (simp add: reconcileDeployment_def apiGet_def apiCreate_def Let_def
      split: prod.splits sum.splits)

lemma reconcileAutoscaler_kinds:
  "\<exists>X. map fst (creates (Calls (snd (reconcileAutoscaler d c u ns s))))
         = map fst (creates (Calls s)) @ X
       \<and> (X = [] \<or> X = [HorizontalPodAutoscaler])"
  by (simp add: reconcileAutoscaler_def apiGet_def apiCreate_def Let_def
      split: prod.splits sum.splits)

lemma reconcileNginxConfig_kinds:
  "\<exists>X. map fst (creates (Calls (snd (reconcileNginxConfig d c u ns s))))
         = map fst (creates (Calls s)) @ X
       \<and> (X = [] \<or> X = [ConfigMap])"
  by (simp add: reconcileNginxConfig_def MakeNginxConfigMap_def apiGet_def apiCreate_def Let_def
      split: prod.splits sum.splits)

lemma reconcileService_kinds:
  "\<exists>X. map fst (creates (Calls (snd (reconcileService d c u ns s))))
         = map fst (creates (Calls s)) @ X
       \<and> (X = [] \<or> X = [Service])"
  by (simp add: reconcileService_def apiGet_def apiCreate_def Let_def
      split: prod.splits sum.splits)

lemma updateStatus_creates:
  "creates (Calls (snd (updateStatus c u s))) = creates (Calls s)"
  by (simp add: updateStatus_def revisionsGet_def revisionsUpdate_def Let_def
      split: prod.splits sum.splits)

lemma createK8SResources_kinds:
  "\<exists>X. map fst (creates (Calls (snd (snd (createK8SResources d c u ns s)))))
         = map fst (creates (Calls s)) @ X
       \<and> subseq X [Pod, Deployment, HorizontalPodAutoscaler, ConfigMap, Service]"
proof -
  let ?s1 = "snd (reconcileDeployment d c u ns s)"
  from reconcileDeployment_kinds [of d c u ns s]
  obtain X1 where X1: "map fst (creates (Calls ?s1)) = map fst (creates (Calls s)) @ X1"
    "X1 = [] \<or> X1 = [Pod, Deployment]" by blast
  show ?thesis
  proof (cases "fst (reconcileDeployment d c u ns s)")
    case (Some e)
    have "map fst (creates (Calls (snd (snd (createK8SResources d c u ns s)))))
          = map fst (creates (Calls s)) @ X1"
      by (simp add: createK8SResources_abort [OF Some] X1(1))
    moreover have "subseq X1 [Pod, Deployment, HorizontalPodAutoscaler, ConfigMap, Service]"
      using X1(2) by auto
    ultimately show ?thesis by blast
  next
    case None
    from createK8SResources_chain [OF None]
    obtain sC sS sU sF u' where
      cA: "continues (snd (reconcileAutoscaler d c u ns ?s1)) sC" and
      cC: "continues (snd (reconcileNginxConfig d c u ns sC)) sS" and
      cS: "continues (snd (reconcileService d c u ns sS)) sU" and
      run: "createK8SResources d c u ns s = (errOf (fst (updateStatus c u' sU)), u', sF)" and
      cU: "continues (snd (updateStatus c u' sU)) sF"
      by blast
    from reconcileAutoscaler_kinds [of d c u ns ?s1] cA
    obtain X2 where X2: "map fst (creates (Calls sC)) = map fst (creates (Calls ?s1)) @ X2"
      "X2 = [] \<or> X2 = [HorizontalPodAutoscaler]" by (auto simp: continues_def)
    from reconcileNginxConfig_kinds [of d c u ns sC] cC
    obtain X3 where X3: "map fst (creates (Calls sS)) = map fst (creates (Calls sC)) @ X3"
      "X3 = [] \<or> X3 = [ConfigMap]" by (auto simp: continues_def)
    from reconcileService_kinds [of d c u ns sS] cS
    obtain X4 where X4: "map fst (creates (Calls sU)) = map fst (creates (Calls sS)) @ X4"
      "X4 = [] \<or> X4 = [Service]" by (auto simp: continues_def)
    have "creates (Calls sF) = creates (Calls sU)"
      using cU updateStatus_creates [of c u' sU] by (simp add: continues_def)
    then have "map fst (creates (Calls (snd (snd (createK8SResources d c u ns s)))))
          = map fst (creates (Calls s)) @ (X1 @ X2 @ X3 @ X4)"
      by (simp add: run X1(1) X2(1) X3(1) X4(1))
    moreover have "subseq (X1 @ X2 @ X3 @ X4)
                     [Pod, Deployment, HorizontalPodAutoscaler, ConfigMap, Service]"
      using X1(2) X2(2) X3(2) X4(2) by auto
    ultimately show ?thesis by blast
  qed
qed

subsection \<open>The concrete configuration\<close>

lemma exDeps_payloadsNamed: "payloadsNamed exDeps"
  by (simp add: payloadsNamed_def exDeps_def newObjectMeta_def)

lemma exDeps_namesFromIdentity: "namesFromIdentity exDeps"
  by (simp add: namesFromIdentity_def exDeps_def)

lemmas path_defs =
  deleteK8SResources_def createK8SResources_def reconcileWithImage_def Accessor_def

subsection \<open>Claims about the child operations\<close>

text \<open>
  C5, as stated, fails for the service: \<open>deleteService\<close> issues the delete at once and
  fetches nothing. On a store without the service its only call is the delete, which
  answers not-found; the protocol with the fetch would have made a get and no delete.
\<close>

theorem deleteService_does_not_fetch:
  "\<not> deleteProtocol storeClient Service ''ns-ela'' (GetElaK8SServiceNameForRevision exDeps r1Deleted)
       (initState (storeWith r1Deleted))
       (deleteService exDeps storeClient r1Deleted ''ns-ela'' (initState (storeWith r1Deleted)))
   \<and> Calls (snd (deleteService exDeps storeClient r1Deleted ''ns-ela''
                   (initState (storeWith r1Deleted))))
     = [DeleteCall Service ''ns-ela'' ''r1-svc'' foreground
          (Some (StatusError StatusReasonNotFound ''r1-svc''))]"
  by (simp add: deleteProtocol_def op_defs api_defs store_defs example_defs newObjectMeta_def
      logPrintf_def Let_def)

text \<open>
  C5, amended: for the deployment, the autoscaler and the configmap, delete-X first
  fetches the child by its derived name and returns success if it is not found, and
  otherwise issues a foreground-cascading delete; delete-service issues the
  foreground-cascading delete without a fetch. For all four, a not-found answer of the
  delete call is success and any other delete error is returned.
\<close>

theorem delete_children_follow_protocol:
  "deleteProtocol c Deployment ns (GetRevisionDeploymentName d u) s
     (deleteDeployment d c u ns s)
   \<and> deleteProtocol c HorizontalPodAutoscaler ns (GetRevisionAutoscalerName d u) s
       (deleteAutoscaler d c u ns s)
   \<and> deleteProtocol c ConfigMap ns (GetRevisionNginxConfigMapName d u) s
       (deleteNginxConfig d c u ns s)
   \<and> deleteDirect c Service ns (GetElaK8SServiceNameForRevision d u) s
       (deleteService d c u ns s)"
  by (simp add: deleteDeployment_protocol deleteAutoscaler_protocol
      deleteNginxConfig_protocol deleteService_direct)

theorem delete_children_follow_protocol_witness:
  "deleteProtocol storeClient Deployment ''ns-ela'' (GetRevisionDeploymentName exDeps r1Deleted)
     (initState (storeWith r1Deleted))
     (deleteDeployment exDeps storeClient r1Deleted ''ns-ela'' (initState (storeWith r1Deleted)))
   \<and> deleteDeployment exDeps storeClient r1Deleted ''ns-ela'' (initState (storeWith r1Deleted))
     = (None,
        \<lparr>World = storeWith r1Deleted,
         Calls = [GetCall Deployment ''ns-ela'' ''r1-dep''
                    (Inl (StatusError StatusReasonNotFound ''r1-dep''))],
         Logs = []\<rparr>)
   \<and> deleteProtocol storeClient ConfigMap ''ns-ela'' (GetRevisionNginxConfigMapName exDeps r1Deleted)
       (initState fullStore)
       (deleteNginxConfig exDeps storeClient r1Deleted ''ns-ela'' (initState fullStore))
   \<and> fst (deleteNginxConfig exDeps storeClient r1Deleted ''ns-ela'' (initState fullStore)) = None
   \<and> Calls (snd (deleteNginxConfig exDeps storeClient r1Deleted ''ns-ela'' (initState fullStore)))
     = [GetCall ConfigMap ''ns-ela'' ''r1-cm'' (Inr (configMapOf exDeps r1 ''ns-ela'')),
        DeleteCall ConfigMap ''ns-ela'' ''r1-cm'' foreground None]
   \<and> Objects (World (snd (deleteNginxConfig exDeps storeClient r1Deleted ''ns-ela''
                            (initState fullStore))))
       (ConfigMap, ''ns-ela'', ''r1-cm'') = None
   \<and> deleteProtocol failingDeleteClient HorizontalPodAutoscaler ''ns-ela''
       (GetRevisionAutoscalerName exDeps r1Deleted) (initState fullStore)
       (deleteAutoscaler exDeps failingDeleteClient r1Deleted ''ns-ela'' (initState fullStore))
   \<and> fst (deleteAutoscaler exDeps failingDeleteClient r1Deleted ''ns-ela'' (initState fullStore))
     = Some (ErrorString ''delete refused'')
   \<and> deleteDirect failingDeleteClient Service ''ns-ela''
       (GetElaK8SServiceNameForRevision exDeps r1Deleted) (initState fullStore)
       (deleteService exDeps failingDeleteClient r1Deleted ''ns-ela'' (initState fullStore))
   \<and> fst (deleteService exDeps failingDeleteClient r1Deleted ''ns-ela'' (initState fullStore))
     = Some (ErrorString ''delete refused'')"
  using delete_children_follow_protocol
          [of storeClient "''ns-ela''" exDeps r1Deleted "initState (storeWith r1Deleted)"]
        delete_children_follow_protocol
          [of storeClient "''ns-ela''" exDeps r1Deleted "initState fullStore"]
        delete_children_follow_protocol
          [of failingDeleteClient "''ns-ela''" exDeps r1Deleted "initState fullStore"]
  by (simp add: op_defs api_defs store_defs payload_defs example_defs failingDeleteClient_def
      logPrintf_def Let_def)

text \<open>
  C6: each of the four reconcile-X fetches the child by its derived name. If it is found,
  the fetch is the only call and the result is success. If the fetch answers not-found,
  the payload with the owner reference to the Revision is created and the outcome of the
  create call is returned (\<open>reconcileDeployment\<close> creates a pod between the two calls and
  ignores its outcome). Any other fetch error is returned and the fetch is the only call.
\<close>

theorem reconcile_children_follow_protocol:
  "reconcileProtocol c Deployment ns (GetRevisionDeploymentName d u)
     (deploymentOf d u ns) (podCreate c ns (podOf d u ns)) s (reconcileDeployment d c u ns s)
   \<and> reconcileProtocol c HorizontalPodAutoscaler ns (GetRevisionAutoscalerName d u)
       (autoscalerOf d u ns) noCalls s (reconcileAutoscaler d c u ns s)
   \<and> reconcileProtocol c ConfigMap ns (GetRevisionNginxConfigMapName d u)
       (configMapOf d u ns) noCalls s (reconcileNginxConfig d c u ns s)
   \<and> reconcileProtocol c Service ns (GetElaK8SServiceNameForRevision d u)
       (serviceOf d u ns) noCalls s
       (snd (fst (reconcileService d c u ns s)), snd (reconcileService d c u ns s))
   \<and> ownedBy u (deploymentOf d u ns) \<and> ownedBy u (autoscalerOf d u ns)
   \<and> ownedBy u (configMapOf d u ns) \<and> ownedBy u (serviceOf d u ns)"
  by (simp add: reconcileDeployment_protocol reconcileAutoscaler_protocol
      reconcileNginxConfig_protocol reconcileService_protocol payloads_owned)

theorem reconcile_children_follow_protocol_witness:
  "reconcileProtocol storeClient Deployment ''ns-ela'' (GetRevisionDeploymentName exDeps r1)
     (deploymentOf exDeps r1 ''ns-ela'')
     (podCreate storeClient ''ns-ela'' (podOf exDeps r1 ''ns-ela''))
     (initState (storeWith r1))
     (reconcileDeployment exDeps storeClient r1 ''ns-ela'' (initState (storeWith r1)))
   \<and> fst (reconcileDeployment exDeps storeClient r1 ''ns-ela'' (initState (storeWith r1))) = None
   \<and> creates (Calls (snd (reconcileDeployment exDeps storeClient r1 ''ns-ela''
                            (initState (storeWith r1)))))
     = [(Pod, ''ns-ela'', ''r1-pod''), (Deployment, ''ns-ela'', ''r1-dep'')]
   \<and> reconcileProtocol storeClient Service ''ns-ela'' (GetElaK8SServiceNameForRevision exDeps r1)
       (serviceOf exDeps r1 ''ns-ela'') noCalls (initState fullStore)
       (snd (fst (reconcileService exDeps storeClient r1 ''ns-ela'' (initState fullStore))),
        snd (reconcileService exDeps storeClient r1 ''ns-ela'' (initState fullStore)))
   \<and> reconcileService exDeps storeClient r1 ''ns-ela'' (initState fullStore)
     = ((''r1-svc'', None),
        \<lparr>World = fullStore,
         Calls = [GetCall Service ''ns-ela'' ''r1-svc'' (Inr (serviceOf exDeps r1 ''ns-ela''))],
         Logs = [Printf ''Found existing service %q'' [AStr ''r1-svc'']]\<rparr>)
   \<and> reconcileProtocol downClient HorizontalPodAutoscaler ''ns-ela''
       (GetRevisionAutoscalerName exDeps r1) (autoscalerOf exDeps r1 ''ns-ela'') noCalls
       (initState fullStore)
       (reconcileAutoscaler exDeps downClient r1 ''ns-ela'' (initState fullStore))
   \<and> reconcileAutoscaler exDeps downClient r1 ''ns-ela'' (initState fullStore)
     = (Some (ErrorString ''down''),
        \<lparr>World = fullStore,
         Calls = [GetCall HorizontalPodAutoscaler ''ns-ela'' ''r1-hpa''
                    (Inl (ErrorString ''down''))],
         Logs = [Printf ''autoscaler.Get for %q failed: %s''
                   [AStr ''r1-hpa'', AErr (ErrorString ''down'')]]\<rparr>)"
  using reconcile_children_follow_protocol
          [of storeClient "''ns-ela''" exDeps r1 "initState (storeWith r1)"]
        reconcile_children_follow_protocol
          [of storeClient "''ns-ela''" exDeps r1 "initState fullStore"]
        reconcile_children_follow_protocol
          [of downClient "''ns-ela''" exDeps r1 "initState fullStore"]
  by (simp add: op_defs api_defs store_defs payload_defs example_defs downClient_def
      logPrintf_def Let_def)

subsection \<open>The status updater\<close>

text \<open>
  C7: \<open>updateStatus\<close> fetches the stored Revision by the namespace and name of the working
  copy. If the fetch fails, its error is returned and the fetch is the only call: nothing
  is written. Otherwise the object written is the fetched one with the status of the
  working copy, every other field being that of the fetched object, and the answer of the
  update call is returned.
\<close>

theorem updateStatus_merges_onto_latest:
  "(RevisionsGet (elaclientset c) (Namespace (ObjectMeta u)) (Name (ObjectMeta u)) (World s)
      = (Inl err, w1)
    \<longrightarrow> updateStatus c u s
          = (Inl err,
             s\<lparr>World := w1,
               Calls := Calls s @ [RevisionsGetCall (Namespace (ObjectMeta u))
                                     (Name (ObjectMeta u)) (Inl err)]\<rparr>))
   \<and> (RevisionsGet (elaclientset c) (Namespace (ObjectMeta u)) (Name (ObjectMeta u)) (World s)
        = (Inr newu, w1)
      \<longrightarrow> (\<exists>written r w2.
             RevisionsUpdate (elaclientset c) (Namespace (ObjectMeta u)) written w1 = (r, w2)
           \<and> written = newu\<lparr>Status := Status u\<rparr>
           \<and> ObjectMeta written = ObjectMeta newu \<and> Spec written = Spec newu
           \<and> Status written = Status u
           \<and> updateStatus c u s
             = (r, s\<lparr>World := w2,
                      Calls := Calls s @ [RevisionsGetCall (Namespace (ObjectMeta u))
                                            (Name (ObjectMeta u)) (Inr newu),
                                          RevisionsUpdateCall (Namespace (ObjectMeta u))
                                            written r]\<rparr>)))"
  by (auto simp: updateStatus_def revisionsGet_def revisionsUpdate_def Let_def
      split: prod.splits)

text \<open>
  The stored Revision has had its spec changed since the working copy was read: the
  write keeps the new spec and carries the status of the working copy. On an empty
  store the fetch fails and nothing is written.
\<close>

theorem updateStatus_merges_onto_latest_witness:
  "RevisionsGet (elaclientset storeClient) (Namespace (ObjectMeta r1Working))
     (Name (ObjectMeta r1Working)) (World (initState (storeWith r1Changed)))
     = (Inr r1Changed, storeWith r1Changed)
   \<and> fst (updateStatus storeClient r1Working (initState (storeWith r1Changed)))
     = Inr \<lparr>ObjectMeta = newObjectMeta ''r1'' ''ns'', Spec = \<lparr>SpecService = ''web2''\<rparr>,
            Status = Status r1Working\<rparr>
   \<and> StoredRevisions
       (World (snd (updateStatus storeClient r1Working (initState (storeWith r1Changed)))))
       (''ns'', ''r1'')
     = Some \<lparr>ObjectMeta = newObjectMeta ''r1'' ''ns'', Spec = \<lparr>SpecService = ''web2''\<rparr>,
             Status = Status r1Working\<rparr>
   \<and> RevisionsGet (elaclientset storeClient) (Namespace (ObjectMeta r1Working))
       (Name (ObjectMeta r1Working)) (World (initState emptyStore))
     = (Inl (StatusError StatusReasonNotFound ''r1''), emptyStore)
   \<and> updateStatus storeClient r1Working (initState emptyStore)
     = (Inl (StatusError StatusReasonNotFound ''r1''),
        \<lparr>World = emptyStore,
         Calls = [RevisionsGetCall ''ns'' ''r1'' (Inl (StatusError StatusReasonNotFound ''r1''))],
         Logs = []\<rparr>)"
  using updateStatus_merges_onto_latest
          [of storeClient r1Working "initState (storeWith r1Changed)"
              "StatusError StatusReasonNotFound ''r1''" "storeWith r1Changed" r1Changed]
        updateStatus_merges_onto_latest
          [of storeClient r1Working "initState emptyStore"
              "StatusError StatusReasonNotFound ''r1''" emptyStore r1Changed]
  by (simp add: op_defs api_defs store_defs example_defs newObjectMeta_def Let_def)

subsection \<open>The sync handler\<close>

text \<open>
  C8: the sync handler returns nil when the key cannot be split into namespace and name,
  returns nil when the lister answers not-found, and returns the lister's error when it
  is any other error. In all three cases no API call is made.
\<close>

theorem syncHandler_drops_or_retries:
  "(SplitMetaNamespaceKey d key = Inl err
      \<longrightarrow> fst (syncHandler d c key s) = Returned None
        \<and> continues s (snd (syncHandler d c key s)))
   \<and> (SplitMetaNamespaceKey d key = Inr (namespace, name)
        \<and> lister c namespace name (World s) = Inl err \<and> IsNotFound err
      \<longrightarrow> fst (syncHandler d c key s) = Returned None
        \<and> continues s (snd (syncHandler d c key s)))
   \<and> (SplitMetaNamespaceKey d key = Inr (namespace, name)
        \<and> lister c namespace name (World s) = Inl err \<and> \<not> IsNotFound err
      \<longrightarrow> fst (syncHandler d c key s) = Returned (Some err)
        \<and> continues s (snd (syncHandler d c key s)))"
  by (auto simp: syncHandler_def continues_def Let_def)

theorem syncHandler_drops_or_retries_witness:
  "SplitMetaNamespaceKey exDeps ''ns/r1/x'' = Inl (ErrorString ''unexpected key format'')
   \<and> fst (syncHandler exDeps storeClient ''ns/r1/x'' (initState (storeWith r1))) = Returned None
   \<and> SplitMetaNamespaceKey exDeps ''ns/r2'' = Inr (''ns'', ''r2'')
   \<and> lister storeClient ''ns'' ''r2'' (World (initState (storeWith r1)))
     = Inl (StatusError StatusReasonNotFound ''r2'')
   \<and> IsNotFound (StatusError StatusReasonNotFound ''r2'')
   \<and> fst (syncHandler exDeps storeClient ''ns/r2'' (initState (storeWith r1))) = Returned None
   \<and> lister downClient ''ns'' ''r2'' (World (initState (storeWith r1)))
     = Inl (ErrorString ''down'')
   \<and> \<not> IsNotFound (ErrorString ''down'')
   \<and> fst (syncHandler exDeps downClient ''ns/r2'' (initState (storeWith r1)))
     = Returned (Some (ErrorString ''down''))"
  using syncHandler_drops_or_retries
          [of exDeps "''ns/r1/x''" "ErrorString ''unexpected key format''" storeClient
              "initState (storeWith r1)" "''ns''" "''r2''"]
        syncHandler_drops_or_retries
          [of exDeps "''ns/r2''" "StatusError StatusReasonNotFound ''r2''" storeClient
              "initState (storeWith r1)" "''ns''" "''r2''"]
        syncHandler_drops_or_retries
          [of exDeps "''ns/r2''" "ErrorString ''down''" downClient
              "initState (storeWith r1)" "''ns''" "''r2''"]
  by (simp add: store_defs example_defs downClient_def splitMetaNamespaceKey_def
      newObjectMeta_def)

text \<open>
  C10: when the Revision is fetched from the cache and the get-or-create of the namespace
  answers an error, the sync handler panics: it returns no error value to its caller, and
  it has made no further API call.
\<close>

theorem syncHandler_namespace_failure_panics:
  "SplitMetaNamespaceKey d key = Inr (namespace, name)
   \<Longrightarrow> lister c namespace name (World s) = Inr u
   \<Longrightarrow> GetOrCreateRevisionNamespace d namespace (kubeclientset c) (World s) = (Inl err, w)
   \<Longrightarrow> fst (syncHandler d c key s) = Panicked ''Failed to create namespace''
       \<and> (\<forall>e. fst (syncHandler d c key s) \<noteq> Returned e)
       \<and> Calls (snd (syncHandler d c key s)) = Calls s"
  by (auto simp: syncHandler_def Let_def)

theorem syncHandler_namespace_failure_panics_witness:
  "SplitMetaNamespaceKey nsFailDeps ''ns/r1'' = Inr (''ns'', ''r1'')
   \<and> lister storeClient ''ns'' ''r1'' (World (initState (storeWith r1))) = Inr r1
   \<and> GetOrCreateRevisionNamespace nsFailDeps ''ns'' (kubeclientset storeClient)
       (World (initState (storeWith r1)))
     = (Inl (ErrorString ''forbidden''), storeWith r1)
   \<and> fst (syncHandler nsFailDeps storeClient ''ns/r1'' (initState (storeWith r1)))
     = Panicked ''Failed to create namespace''"
proof -
  have split: "SplitMetaNamespaceKey nsFailDeps ''ns/r1'' = Inr (''ns'', ''r1'')"
    by (simp add: nsFailDeps_def exDeps_def splitMetaNamespaceKey_def)
  have cached: "lister storeClient ''ns'' ''r1'' (World (initState (storeWith r1))) = Inr r1"
    by (simp add: store_defs example_defs newObjectMeta_def)
  have failing:
    "GetOrCreateRevisionNamespace nsFailDeps ''ns'' (kubeclientset storeClient)
       (World (initState (storeWith r1)))
     = (Inl (ErrorString ''forbidden''), storeWith r1)"
    by (simp add: nsFailDeps_def exDeps_def initState_def)
  from syncHandler_namespace_failure_panics [OF split cached failing] split cached failing
  show ?thesis by simp
qed

subsection \<open>Both paths and the errors of their steps\<close>

text \<open>
  C1, as stated, fails on the delete path: an error of the deployment's delete is logged
  like the others and the cycle goes on. With a client that refuses every delete and a
  store that holds the four children, \<open>deleteDeployment\<close> returns the error, all four
  deletes are issued, and the cycle returns nil.
\<close>

theorem delete_path_ignores_deployment_error:
  "fst (deleteDeployment exDeps failingDeleteClient r1Deleted ''ns-ela''
          (logPrintf ''Deleting the resources for %s\<newline>'' [AStr ''r1'']
             (initState fullStoreDeleted)))
     = Some (ErrorString ''delete refused'')
   \<and> fst (deleteK8SResources exDeps failingDeleteClient r1Deleted ''ns-ela''
            (initState fullStoreDeleted)) = None
   \<and> fst (reconcileWithImage exDeps failingDeleteClient r1Deleted ''ns''
            (initState fullStoreDeleted)) = Returned None
   \<and> deletes (Calls (snd (snd (deleteK8SResources exDeps failingDeleteClient r1Deleted ''ns-ela''
                                 (initState fullStoreDeleted)))))
     = [(Deployment, ''ns-ela'', ''r1-dep'', Some (ErrorString ''delete refused'')),
        (HorizontalPodAutoscaler, ''ns-ela'', ''r1-hpa'', Some (ErrorString ''delete refused'')),
        (ConfigMap, ''ns-ela'', ''r1-cm'', Some (ErrorString ''delete refused'')),
        (Service, ''ns-ela'', ''r1-svc'', Some (ErrorString ''delete refused''))]"
  by (simp add: path_defs op_defs api_defs store_defs payload_defs example_defs
      failingDeleteClient_def logPrintf_def Let_def)

text \<open>
  C1, amended. On the create path an error of \<open>reconcileDeployment\<close> ends the cycle: it
  is the cycle's error, the Revision is not touched and no further call is made. When
  \<open>reconcileDeployment\<close> succeeds, the autoscaler, the configmap and the service are
  reconciled one after the other, each from the state the one before left, whatever the
  others answered; their errors are logged; then the status updater runs and its error is
  the cycle's result. On the delete path no error of a child operation, the deployment's
  included, ends the cycle: the four deletes run one after the other, their errors are
  logged, then the status updater runs and its error is the cycle's result.
\<close>

theorem child_errors_on_both_paths:
  "(fst (reconcileDeployment d c u ns s) = Some e
      \<longrightarrow> createK8SResources d c u ns s
          = (Some e, u, logPrintf ''Failed to create a deployment: %s'' [AErr e]
                          (snd (reconcileDeployment d c u ns s))))
   \<and> (fst (reconcileDeployment d c u ns s) = None
      \<longrightarrow> (\<exists>sC sS sU sF u'.
            continues (snd (reconcileAutoscaler d c u ns (snd (reconcileDeployment d c u ns s)))) sC
          \<and> loggedIfError
              (fst (reconcileAutoscaler d c u ns (snd (reconcileDeployment d c u ns s))))
              ''Failed to create autoscaler: %s'' sC
          \<and> continues (snd (reconcileNginxConfig d c u ns sC)) sS
          \<and> loggedIfError (fst (reconcileNginxConfig d c u ns sC))
              ''Failed to create nginx configmap: %s'' sS
          \<and> continues (snd (reconcileService d c u ns sS)) sU
          \<and> loggedIfError (snd (fst (reconcileService d c u ns sS)))
              ''Failed to create k8s service: %s'' sU
          \<and> createK8SResources d c u ns s = (errOf (fst (updateStatus c u' sU)), u', sF)
          \<and> continues (snd (updateStatus c u' sU)) sF))
   \<and> (\<exists>s0 s1 s2 s3 s4 sF u'.
          continues s s0
        \<and> continues (snd (deleteDeployment d c u ns s0)) s1
        \<and> loggedIfError (fst (deleteDeployment d c u ns s0))
            ''Failed to delete a deployment: %s'' s1
        \<and> continues (snd (deleteAutoscaler d c u ns s1)) s2
        \<and> loggedIfError (fst (deleteAutoscaler d c u ns s1))
            ''Failed to delete autoscaler: %s'' s2
        \<and> continues (snd (deleteNginxConfig d c u ns s2)) s3
        \<and> loggedIfError (fst (deleteNginxConfig d c u ns s2))
            ''Failed to delete configmap: %s'' s3
        \<and> continues (snd (deleteService d c u ns s3)) s4
        \<and> loggedIfError (fst (deleteService d c u ns s3))
            ''Failed to delete k8s service: %s'' s4
        \<and> deleteK8SResources d c u ns s = (errOf (fst (updateStatus c u' s4)), u', sF)
        \<and> continues (snd (updateStatus c u' s4)) sF)"
proof (intro conjI impI)
  assume "fst (reconcileDeployment d c u ns s) = Some e"
  then show "createK8SResources d c u ns s
          = (Some e, u, logPrintf ''Failed to create a deployment: %s'' [AErr e]
                          (snd (reconcileDeployment d c u ns s)))"
    by (rule createK8SResources_abort)
next
  assume "fst (reconcileDeployment d c u ns s) = None"
  from createK8SResources_chain [OF this]
  show "\<exists>sC sS sU sF u'.
            continues (snd (reconcileAutoscaler d c u ns (snd (reconcileDeployment d c u ns s)))) sC
          \<and> loggedIfError
              (fst (reconcileAutoscaler d c u ns (snd (reconcileDeployment d c u ns s))))
              ''Failed to create autoscaler: %s'' sC
          \<and> continues (snd (reconcileNginxConfig d c u ns sC)) sS
          \<and> loggedIfError (fst (reconcileNginxConfig d c u ns sC))
              ''Failed to create nginx configmap: %s'' sS
          \<and> continues (snd (reconcileService d c u ns sS)) sU
          \<and> loggedIfError (snd (fst (reconcileService d c u ns sS)))
              ''Failed to create k8s service: %s'' sU
          \<and> createK8SResources d c u ns s = (errOf (fst (updateStatus c u' sU)), u', sF)
          \<and> continues (snd (updateStatus c u' sU)) sF"
    by blast
next
  from deleteK8SResources_chain [of s d c u ns]
  show "\<exists>s0 s1 s2 s3 s4 sF u'.
          continues s s0
        \<and> continues (snd (deleteDeployment d c u ns s0)) s1
        \<and> loggedIfError (fst (deleteDeployment d c u ns s0))
            ''Failed to delete a deployment: %s'' s1
        \<and> continues (snd (deleteAutoscaler d c u ns s1)) s2
        \<and> loggedIfError (fst (deleteAutoscaler d c u ns s1))
            ''Failed to delete autoscaler: %s'' s2
        \<and> continues (snd (deleteNginxConfig d c u ns s2)) s3
        \<and> loggedIfError (fst (deleteNginxConfig d c u ns s2))
            ''Failed to delete configmap: %s'' s3
        \<and> continues (snd (deleteService d c u ns s3)) s4
        \<and> loggedIfError (fst (deleteService d c u ns s3))
            ''Failed to delete k8s service: %s'' s4
        \<and> deleteK8SResources d c u ns s = (errOf (fst (updateStatus c u' s4)), u', sF)
        \<and> continues (snd (updateStatus c u' s4)) sF"
    by blast
qed

text \<open>
  With the API down the fetch of the deployment fails and the cycle returns that error
  after this one call. With a client that refuses to create autoscalers the cycle still
  creates the configmap and the service, logs the autoscaler's error and returns nil.
\<close>

theorem child_errors_on_both_paths_witness:
  "fst (reconcileDeployment exDeps downClient r1 ''ns-ela'' (initState (storeWith r1)))
     = Some (ErrorString ''down'')
   \<and> fst (createK8SResources exDeps downClient r1 ''ns-ela'' (initState (storeWith r1)))
     = Some (ErrorString ''down'')
   \<and> Calls (snd (snd (createK8SResources exDeps downClient r1 ''ns-ela''
                         (initState (storeWith r1)))))
     = [GetCall Deployment ''ns-ela'' ''r1-dep'' (Inl (ErrorString ''down''))]
   \<and> fst (reconcileDeployment exDeps autoscalerFailClient r1 ''ns-ela'' (initState (storeWith r1)))
     = None
   \<and> fst (createK8SResources exDeps autoscalerFailClient r1 ''ns-ela'' (initState (storeWith r1)))
     = None
   \<and> creates (Calls (snd (snd (createK8SResources exDeps autoscalerFailClient r1 ''ns-ela''
                                  (initState (storeWith r1))))))
     = [(Pod, ''ns-ela'', ''r1-pod''), (Deployment, ''ns-ela'', ''r1-dep''),
        (HorizontalPodAutoscaler, ''ns-ela'', ''r1-hpa''), (ConfigMap, ''ns-ela'', ''r1-cm''),
        (Service, ''ns-ela'', ''r1-svc'')]
   \<and> Printf ''Failed to create autoscaler: %s'' [AErr (ErrorString ''quota'')]
       \<in> set (Logs (snd (snd (createK8SResources exDeps autoscalerFailClient r1 ''ns-ela''
                                 (initState (storeWith r1))))))
   \<and> (\<exists>sU sF u'.
         createK8SResources exDeps autoscalerFailClient r1 ''ns-ela'' (initState (storeWith r1))
         = (errOf (fst (updateStatus autoscalerFailClient u' sU)), u', sF))"
proof -
  have down: "fst (reconcileDeployment exDeps downClient r1 ''ns-ela'' (initState (storeWith r1)))
     = Some (ErrorString ''down'')"
    by (simp add: op_defs api_defs downClient_def initState_def exDeps_def Let_def)
  from child_errors_on_both_paths
         [of exDeps downClient r1 "''ns-ela''" "initState (storeWith r1)" "ErrorString ''down''"]
       down
  have aborted: "createK8SResources exDeps downClient r1 ''ns-ela'' (initState (storeWith r1))
          = (Some (ErrorString ''down''), r1,
             logPrintf ''Failed to create a deployment: %s'' [AErr (ErrorString ''down'')]
               (snd (reconcileDeployment exDeps downClient r1 ''ns-ela''
                       (initState (storeWith r1)))))"
    by blast
  have calls: "Calls (snd (reconcileDeployment exDeps downClient r1 ''ns-ela''
                       (initState (storeWith r1))))
     = [GetCall Deployment ''ns-ela'' ''r1-dep'' (Inl (ErrorString ''down''))]"
    by (simp add: op_defs api_defs downClient_def initState_def example_defs newObjectMeta_def
        Let_def)
  have quota:
    "fst (reconcileDeployment exDeps autoscalerFailClient r1 ''ns-ela'' (initState (storeWith r1)))
       = None
     \<and> fst (createK8SResources exDeps autoscalerFailClient r1 ''ns-ela''
              (initState (storeWith r1))) = None
     \<and> creates (Calls (snd (snd (createK8SResources exDeps autoscalerFailClient r1 ''ns-ela''
                                  (initState (storeWith r1))))))
       = [(Pod, ''ns-ela'', ''r1-pod''), (Deployment, ''ns-ela'', ''r1-dep''),
          (HorizontalPodAutoscaler, ''ns-ela'', ''r1-hpa''), (ConfigMap, ''ns-ela'', ''r1-cm''),
          (Service, ''ns-ela'', ''r1-svc'')]
     \<and> Printf ''Failed to create autoscaler: %s'' [AErr (ErrorString ''quota'')]
         \<in> set (Logs (snd (snd (createK8SResources exDeps autoscalerFailClient r1 ''ns-ela''
                                   (initState (storeWith r1))))))"
    by (simp add: path_defs op_defs api_defs store_defs payload_defs example_defs
        autoscalerFailClient_def logPrintf_def Let_def)
  from child_errors_on_both_paths
         [of exDeps autoscalerFailClient r1 "''ns-ela''" "initState (storeWith r1)"]
       quota
  have updater: "\<exists>sU sF u'.
         createK8SResources exDeps autoscalerFailClient r1 ''ns-ela'' (initState (storeWith r1))
         = (errOf (fst (updateStatus autoscalerFailClient u' sU)), u', sF)"
    by blast
  from down aborted calls quota updater show ?thesis by simp
qed

subsection \<open>The create path on the resource store\<close>

text \<open>
  C2: for a Revision without deletion marker, on a store that holds none of its four
  children, the cycle issues the creates of the deployment, the autoscaler, the configmap
  and the service in this order (after the create of a pod that goes with the
  deployment's), and each child is in the store afterwards, as built with its owner
  reference. The status of the Revision then carries the derived name of the service and
  exactly the condition Ready, False, Deploying; the status updater is run on this
  Revision, the cycle ends in the state the updater leaves, and the cycle's result is the
  updater's error.
\<close>

theorem fresh_create:
  assumes "DeletionTimestamp (ObjectMeta u) = None"
    and "payloadsNamed d"
    and "list_all (\<lambda>key. Objects (World s) key = None)
           (childKeys d u (GetElaNamespaceName d (Namespace (ObjectMeta u))))"
  shows "\<exists>r u' sU sF.
      reconcileWithImage d storeClient u ns s = (Returned r, u', sF)
    \<and> creates (Calls sF)
      = creates (Calls s)
        @ (Pod, GetElaNamespaceName d (Namespace (ObjectMeta u)), GetRevisionPodName d u)
          # childKeys d u (GetElaNamespaceName d (Namespace (ObjectMeta u)))
    \<and> map (Objects (World sF)) (childKeys d u (GetElaNamespaceName d (Namespace (ObjectMeta u))))
      = [Some (deploymentOf d u (GetElaNamespaceName d (Namespace (ObjectMeta u)))),
         Some (autoscalerOf d u (GetElaNamespaceName d (Namespace (ObjectMeta u)))),
         Some (configMapOf d u (GetElaNamespaceName d (Namespace (ObjectMeta u)))),
         Some (serviceOf d u (GetElaNamespaceName d (Namespace (ObjectMeta u))))]
    \<and> u' = u\<lparr>Status := \<lparr>ServiceName = GetElaK8SServiceNameForRevision d u,
                           Conditions = [condition ''Ready'' ''False'' ''Deploying'']\<rparr>\<rparr>
    \<and> r = errOf (fst (updateStatus storeClient u' sU))
    \<and> continues (snd (updateStatus storeClient u' sU)) sF"
proof -
  let ?ns = "GetElaNamespaceName d (Namespace (ObjectMeta u))"
  from reconcileWithImage_create [OF assms(1), of s d storeClient ns]
  obtain s' where s': "continues s s'"
    and run: "reconcileWithImage d storeClient u ns s
      = (Returned (fst (createK8SResources d storeClient u ?ns s')),
         snd (createK8SResources d storeClient u ?ns s'))"
    by blast
  let ?R = "createK8SResources d storeClient u ?ns s'"
  from assms(3) s' have a:
    "Objects (World s') (Deployment, ?ns, GetRevisionDeploymentName d u) = None"
    "Objects (World s') (HorizontalPodAutoscaler, ?ns, GetRevisionAutoscalerName d u) = None"
    "Objects (World s') (ConfigMap, ?ns, GetRevisionNginxConfigMapName d u) = None"
    "Objects (World s') (Service, ?ns, GetElaK8SServiceNameForRevision d u) = None"
    by (simp_all add: childKeys_def continues_def)
  note st = store_createK8SResources [OF assms(2), where u = u and ns = ?ns and s = s']
  from assms(2) have "fst (reconcileDeployment d storeClient u ?ns s') = None"
    by (simp add: store_reconcileDeployment(1) payloadsNamed_def)
  from createK8SResources_chain [OF this]
  obtain sU sF u' where
    chain: "createK8SResources d storeClient u ?ns s'
            = (errOf (fst (updateStatus storeClient u' sU)), u', sF)"
      "continues (snd (updateStatus storeClient u' sU)) sF"
    by blast
  have f1: "creates (Calls sF) = creates (Calls s) @ (Pod, ?ns, GetRevisionPodName d u) # childKeys d u ?ns"
    using st(3) s' a by (simp add: chain(1) createdByCreatePath_def childKeys_def continues_def)
  have f2: "map (Objects (World sF)) (childKeys d u ?ns)
      = [Some (deploymentOf d u ?ns), Some (autoscalerOf d u ?ns),
         Some (configMapOf d u ?ns), Some (serviceOf d u ?ns)]"
    using st(2) a by (simp add: chain(1) childKeys_def afterCreatePath_children)
  have f3: "u' = u\<lparr>Status := \<lparr>ServiceName = GetElaK8SServiceNameForRevision d u,
                           Conditions = [condition ''Ready'' ''False'' ''Deploying'']\<rparr>\<rparr>"
    using st(1) by (simp add: chain(1))
  have f4: "reconcileWithImage d storeClient u ns s
                 = (Returned (errOf (fst (updateStatus storeClient u' sU))), u', sF)"
    by (simp add: run chain(1))
  show ?thesis
    apply (rule exI [of _ "errOf (fst (updateStatus storeClient u' sU))"], rule exI [of _ u'],
        rule exI [of _ sU], rule exI [of _ sF])
    apply (intro conjI f1 f2 f3 f4 refl chain(2))
    done
qed

theorem fresh_create_witness:
  "DeletionTimestamp (ObjectMeta r1) = None
   \<and> payloadsNamed exDeps
   \<and> list_all (\<lambda>key. Objects (World (initState (storeWith r1))) key = None)
       (childKeys exDeps r1 (GetElaNamespaceName exDeps (Namespace (ObjectMeta r1))))
   \<and> (\<exists>sF. reconcileWithImage exDeps storeClient r1 ''ns'' (initState (storeWith r1))
            = (Returned None,
               r1\<lparr>Status := \<lparr>ServiceName = ''r1-svc'',
                               Conditions = [condition ''Ready'' ''False'' ''Deploying'']\<rparr>\<rparr>,
               sF)
          \<and> creates (Calls sF)
            = [(Pod, ''ns-ela'', ''r1-pod''), (Deployment, ''ns-ela'', ''r1-dep''),
               (HorizontalPodAutoscaler, ''ns-ela'', ''r1-hpa''),
               (ConfigMap, ''ns-ela'', ''r1-cm''), (Service, ''ns-ela'', ''r1-svc'')])"
proof -
  have h1: "DeletionTimestamp (ObjectMeta r1) = None"
    by (simp add: r1_def newObjectMeta_def)
  have h3: "list_all (\<lambda>key. Objects (World (initState (storeWith r1))) key = None)
       (childKeys exDeps r1 (GetElaNamespaceName exDeps (Namespace (ObjectMeta r1))))"
    by (simp add: childKeys_def initState_def storeWith_def)
  have res: "fst (reconcileWithImage exDeps storeClient r1 ''ns'' (initState (storeWith r1)))
             = Returned None"
    by (simp add: path_defs op_defs api_defs store_defs payload_defs example_defs
        logPrintf_def Let_def)
  from fresh_create [OF h1 exDeps_payloadsNamed h3, of "''ns''"] res
  have "\<exists>sF. reconcileWithImage exDeps storeClient r1 ''ns'' (initState (storeWith r1))
            = (Returned None,
               r1\<lparr>Status := \<lparr>ServiceName = ''r1-svc'',
                               Conditions = [condition ''Ready'' ''False'' ''Deploying'']\<rparr>\<rparr>,
               sF)
          \<and> creates (Calls sF)
            = [(Pod, ''ns-ela'', ''r1-pod''), (Deployment, ''ns-ela'', ''r1-dep''),
               (HorizontalPodAutoscaler, ''ns-ela'', ''r1-hpa''),
               (ConfigMap, ''ns-ela'', ''r1-cm''), (Service, ''ns-ela'', ''r1-svc'')]"
    by (auto simp: childKeys_def exDeps_def r1_def newObjectMeta_def initState_def)
  with h1 h3 exDeps_payloadsNamed show ?thesis by blast
qed

text \<open>
  C9: on a store that holds the Revision, two runs of the create path in succession, the
  second on the Revision as the first left it: both return nil, the second issues no
  create call and leaves the objects of the store as they were, each of the four children
  is in the store, and over both runs each child was created by one create call if it was
  absent at the start and by none if it was present.
\<close>

theorem create_twice:
  assumes "payloadsNamed d" and "namesFromIdentity d" and "holdsRevision (World s) u"
  shows "let run1 = createK8SResources d storeClient u ns s;
             u1 = fst (snd run1);
             s1 = snd (snd run1);
             run2 = createK8SResources d storeClient u1 ns s1;
             s2 = snd (snd run2)
         in fst run1 = None \<and> fst run2 = None
          \<and> creates (Calls s2) = creates (Calls s1)
          \<and> Objects (World s2) = Objects (World s1)
          \<and> list_all (\<lambda>key. Objects (World s2) key \<noteq> None) (childKeys d u ns)
          \<and> creates (Calls s2)
            = creates (Calls s) @ createdByCreatePath d u ns (Objects (World s))
          \<and> list_all (\<lambda>key. count_list (createdByCreatePath d u ns (Objects (World s))) key
                               = (if Objects (World s) key = None then 1 else 0))
              (childKeys d u ns)"
proof -
  let ?R1 = "createK8SResources d storeClient u ns s"
  let ?u1 = "fst (snd ?R1)"
  let ?s1 = "snd (snd ?R1)"
  let ?R2 = "createK8SResources d storeClient ?u1 ns ?s1"
  note first = store_createK8SResources [OF assms(1), where u = u and ns = ns and s = s]
  have meta: "ObjectMeta ?u1 = ObjectMeta u"
    by (simp add: first(1))
  from assms(2) meta have names:
    "GetRevisionDeploymentName d ?u1 = GetRevisionDeploymentName d u"
    "GetRevisionAutoscalerName d ?u1 = GetRevisionAutoscalerName d u"
    "GetRevisionNginxConfigMapName d ?u1 = GetRevisionNginxConfigMapName d u"
    "GetElaK8SServiceNameForRevision d ?u1 = GetElaK8SServiceNameForRevision d u"
    unfolding namesFromIdentity_def by metis+
  have held: "holdsRevision (World ?s1) ?u1"
    using first(5) [OF assms(3)] by (simp add: holdsRevision_def meta split: option.splits)
  note second = store_createK8SResources [OF assms(1), where u = ?u1 and ns = ns and s = ?s1]
  note idem = afterCreatePath_idem [OF names, where ns = ns and m = "Objects (World s)"]
  have r1: "fst ?R1 = None" by (rule first(4) [OF assms(3)])
  have r2: "fst ?R2 = None" by (rule second(4) [OF held])
  have c2: "creates (Calls (snd (snd ?R2))) = creates (Calls ?s1)"
    by (simp add: second(3) first(2) idem(2))
  have o2: "Objects (World (snd (snd ?R2))) = Objects (World ?s1)"
    by (simp add: second(2) first(2) idem(1))
  have ex: "list_all (\<lambda>key. Objects (World (snd (snd ?R2))) key \<noteq> None) (childKeys d u ns)"
    by (simp add: o2 first(2) childKeys_def afterCreatePath_children)
  have tot: "creates (Calls (snd (snd ?R2)))
             = creates (Calls s) @ createdByCreatePath d u ns (Objects (World s))"
    by (simp add: c2 first(3))
  have once: "list_all (\<lambda>key. count_list (createdByCreatePath d u ns (Objects (World s))) key
                               = (if Objects (World s) key = None then 1 else 0))
              (childKeys d u ns)"
    by (simp add: childKeys_def createdByCreatePath_def)
  show ?thesis
    unfolding Let_def by (intro conjI r1 r2 c2 o2 ex tot once)
qed

theorem create_twice_witness:
  "payloadsNamed exDeps \<and> namesFromIdentity exDeps
   \<and> holdsRevision (World (initState (storeWith r1))) r1
   \<and> (let run1 = createK8SResources exDeps storeClient r1 ''ns-ela'' (initState (storeWith r1));
           run2 = createK8SResources exDeps storeClient (fst (snd run1)) ''ns-ela''
                    (snd (snd run1))
       in fst run1 = None \<and> fst run2 = None
        \<and> creates (Calls (snd (snd run2)))
          = [(Pod, ''ns-ela'', ''r1-pod''), (Deployment, ''ns-ela'', ''r1-dep''),
             (HorizontalPodAutoscaler, ''ns-ela'', ''r1-hpa''),
             (ConfigMap, ''ns-ela'', ''r1-cm''), (Service, ''ns-ela'', ''r1-svc'')])"
proof -
  have held: "holdsRevision (World (initState (storeWith r1))) r1"
    by (simp add: holdsRevision_def initState_def storeWith_def)
  have made: "createdByCreatePath exDeps r1 ''ns-ela'' (Objects (World (initState (storeWith r1))))
          = [(Pod, ''ns-ela'', ''r1-pod''), (Deployment, ''ns-ela'', ''r1-dep''),
             (HorizontalPodAutoscaler, ''ns-ela'', ''r1-hpa''),
             (ConfigMap, ''ns-ela'', ''r1-cm''), (Service, ''ns-ela'', ''r1-svc'')]"
    by (simp add: createdByCreatePath_def initState_def storeWith_def exDeps_def
        r1_def newObjectMeta_def)
  have none: "creates (Calls (initState (storeWith r1))) = []"
    by (simp add: initState_def)
  note twice = create_twice [OF exDeps_payloadsNamed exDeps_namesFromIdentity held,
      of "''ns-ela''", unfolded Let_def]
  from twice have first: "fst (createK8SResources exDeps storeClient r1 ''ns-ela''
                                 (initState (storeWith r1))) = None"
    by (elim conjE) assumption
  from twice have second:
    "fst (createK8SResources exDeps storeClient
            (fst (snd (createK8SResources exDeps storeClient r1 ''ns-ela''
                         (initState (storeWith r1)))))
            ''ns-ela''
            (snd (snd (createK8SResources exDeps storeClient r1 ''ns-ela''
                         (initState (storeWith r1)))))) = None"
    by (elim conjE) assumption
  from twice have total:
    "creates (Calls (snd (snd (createK8SResources exDeps storeClient
            (fst (snd (createK8SResources exDeps storeClient r1 ''ns-ela''
                         (initState (storeWith r1)))))
            ''ns-ela''
            (snd (snd (createK8SResources exDeps storeClient r1 ''ns-ela''
                         (initState (storeWith r1)))))))))
     = creates (Calls (initState (storeWith r1) :: (string Store, string) State))
       @ createdByCreatePath exDeps r1 ''ns-ela''
           (Objects (World (initState (storeWith r1) :: (string Store, string) State)))"
    by (elim conjE) assumption
  have "let run1 = createK8SResources exDeps storeClient r1 ''ns-ela'' (initState (storeWith r1));
           run2 = createK8SResources exDeps storeClient (fst (snd run1)) ''ns-ela''
                    (snd (snd run1))
       in fst run1 = None \<and> fst run2 = None
        \<and> creates (Calls (snd (snd run2)))
          = [(Pod, ''ns-ela'', ''r1-pod''), (Deployment, ''ns-ela'', ''r1-dep''),
             (HorizontalPodAutoscaler, ''ns-ela'', ''r1-hpa''),
             (ConfigMap, ''ns-ela'', ''r1-cm''), (Service, ''ns-ela'', ''r1-svc'')]"
    unfolding Let_def total made none using first second by simp
  with held exDeps_payloadsNamed exDeps_namesFromIdentity show ?thesis by blast
qed

text \<open>
  C3, as stated, fails: when the deployment is absent \<open>reconcileDeployment\<close> first
  creates a pod, which is none of the four children. On a store without children the
  create path issues five create calls, the first for the pod, and the pod is in the
  store afterwards.
\<close>

theorem create_path_creates_a_pod:
  "creates (Calls (snd (snd (createK8SResources exDeps storeClient r1 ''ns-ela''
                               (initState (storeWith r1))))))
     = [(Pod, ''ns-ela'', ''r1-pod''), (Deployment, ''ns-ela'', ''r1-dep''),
        (HorizontalPodAutoscaler, ''ns-ela'', ''r1-hpa''), (ConfigMap, ''ns-ela'', ''r1-cm''),
        (Service, ''ns-ela'', ''r1-svc'')]
   \<and> Objects (World (snd (snd (createK8SResources exDeps storeClient r1 ''ns-ela''
                                  (initState (storeWith r1))))))
       (Pod, ''ns-ela'', ''r1-pod'')
     = Some (podOf exDeps r1 ''ns-ela'')"
  by (simp add: path_defs op_defs api_defs store_defs payload_defs example_defs
      logPrintf_def Let_def)

text \<open>
  C3, amended. With any client, the create calls of the create path go to a pod, the
  deployment, the autoscaler, the configmap and the service, in this order and at most
  one to each, and to no other kind of object. On the resource store each child that is
  absent is brought into existence by exactly one create call and a child that is present
  by none; the one other create call is for the pod, made when the deployment is absent;
  every child is in the store afterwards.
\<close>

theorem create_path_creates:
  "(\<exists>X. map fst (creates (Calls (snd (snd (createK8SResources d c u ns s)))))
          = map fst (creates (Calls s)) @ X
        \<and> subseq X [Pod, Deployment, HorizontalPodAutoscaler, ConfigMap, Service])
   \<and> (payloadsNamed e
      \<longrightarrow> creates (Calls (snd (snd (createK8SResources e storeClient u ns t))))
          = creates (Calls t) @ createdByCreatePath e u ns (Objects (World t))
        \<and> filter (\<lambda>key. fst key \<noteq> Pod) (createdByCreatePath e u ns (Objects (World t)))
          = filter (\<lambda>key. Objects (World t) key = None) (childKeys e u ns)
        \<and> filter (\<lambda>key. fst key = Pod) (createdByCreatePath e u ns (Objects (World t)))
          = (if Objects (World t) (Deployment, ns, GetRevisionDeploymentName e u) = None
             then [(Pod, ns, GetRevisionPodName e u)] else [])
        \<and> list_all (\<lambda>key. Objects (World (snd (snd (createK8SResources e storeClient u ns t))))
                             key \<noteq> None)
            (childKeys e u ns))"
proof (intro conjI impI)
  show "\<exists>X. map fst (creates (Calls (snd (snd (createK8SResources d c u ns s)))))
          = map fst (creates (Calls s)) @ X
        \<and> subseq X [Pod, Deployment, HorizontalPodAutoscaler, ConfigMap, Service]"
    by (rule createK8SResources_kinds)
next
  assume P: "payloadsNamed e"
  note st = store_createK8SResources [OF P, where u = u and ns = ns and s = t]
  show "creates (Calls (snd (snd (createK8SResources e storeClient u ns t))))
          = creates (Calls t) @ createdByCreatePath e u ns (Objects (World t))"
    by (rule st(3))
  show "filter (\<lambda>key. fst key \<noteq> Pod) (createdByCreatePath e u ns (Objects (World t)))
          = filter (\<lambda>key. Objects (World t) key = None) (childKeys e u ns)"
    by (simp add: createdByCreatePath_def childKeys_def)
  show "filter (\<lambda>key. fst key = Pod) (createdByCreatePath e u ns (Objects (World t)))
          = (if Objects (World t) (Deployment, ns, GetRevisionDeploymentName e u) = None
             then [(Pod, ns, GetRevisionPodName e u)] else [])"
    by (simp add: createdByCreatePath_def)
  show "list_all (\<lambda>key. Objects (World (snd (snd (createK8SResources e storeClient u ns t))))
                             key \<noteq> None)
            (childKeys e u ns)"
    by (simp add: st(2) childKeys_def afterCreatePath_children)
qed

text \<open>
  On the store that already holds the deployment and the autoscaler of the Revision, the
  run creates the configmap and the service and nothing else.
\<close>

theorem create_path_creates_witness:
  "payloadsNamed exDeps
   \<and> creates (Calls (snd (snd (createK8SResources exDeps storeClient r1 ''ns-ela''
                                  (initState halfStore)))))
     = [(ConfigMap, ''ns-ela'', ''r1-cm''), (Service, ''ns-ela'', ''r1-svc'')]
   \<and> (\<exists>X. map fst (creates (Calls (snd (snd (createK8SResources exDeps downClient r1 ''ns-ela''
                                                (initState halfStore))))))
            = X
          \<and> subseq X [Pod, Deployment, HorizontalPodAutoscaler, ConfigMap, Service])"
proof -
  note inst = create_path_creates
      [where d = exDeps and c = downClient and u = r1 and ns = "''ns-ela''"
         and s = "initState halfStore" and e = exDeps and t = "initState halfStore"]
  have made: "createdByCreatePath exDeps r1 ''ns-ela'' (Objects (World (initState halfStore)))
      = [(ConfigMap, ''ns-ela'', ''r1-cm''), (Service, ''ns-ela'', ''r1-svc'')]"
    by (simp add: createdByCreatePath_def initState_def halfStore_def storeWith_def exDeps_def
        r1_def newObjectMeta_def)
  have none: "creates (Calls (initState halfStore)) = []"
    by (simp add: initState_def)
  from inst exDeps_payloadsNamed
  have "creates (Calls (snd (snd (createK8SResources exDeps storeClient r1 ''ns-ela''
                                  (initState halfStore)))))
     = creates (Calls (initState halfStore :: (string Store, string) State))
       @ createdByCreatePath exDeps r1 ''ns-ela''
           (Objects (World (initState halfStore :: (string Store, string) State)))"
    by blast
  then have first: "creates (Calls (snd (snd (createK8SResources exDeps storeClient r1 ''ns-ela''
                                  (initState halfStore)))))
     = [(ConfigMap, ''ns-ela'', ''r1-cm''), (Service, ''ns-ela'', ''r1-svc'')]"
    by (simp add: made none)
  from inst
  have "\<exists>X. map fst (creates (Calls (snd (snd (createK8SResources exDeps downClient r1 ''ns-ela''
                                                (initState halfStore))))))
            = map fst (creates (Calls (initState halfStore :: (string Store, string) State))) @ X
          \<and> subseq X [Pod, Deployment, HorizontalPodAutoscaler, ConfigMap, Service]"
    by blast
  then have second: "\<exists>X. map fst (creates (Calls (snd (snd (createK8SResources exDeps downClient r1 ''ns-ela''
                                                (initState halfStore))))))
            = X
          \<and> subseq X [Pod, Deployment, HorizontalPodAutoscaler, ConfigMap, Service]"
    by (simp add: none)
  from exDeps_payloadsNamed first second show ?thesis by blast
qed

subsection \<open>The delete path\<close>

text \<open>
  C4: for a Revision with the deletion marker the cycle is the delete path. The delete
  path runs \<open>deleteDeployment\<close>, \<open>deleteAutoscaler\<close>, \<open>deleteNginxConfig\<close> and
  \<open>deleteService\<close> in this order, each from the state the one before left, whatever
  the one before returned; it sets the conditions to exactly Ready, False, Inactive, runs
  the status updater on that Revision and returns the updater's error. On the resource
  store a delete of an absent child returns nil, and when all four children are absent
  and the store holds the Revision the delete path returns nil and leaves the objects of
  the store as they were.
\<close>

theorem delete_path:
  "(DeletionTimestamp (ObjectMeta u) \<noteq> None
      \<longrightarrow> (\<exists>s'. continues s s'
            \<and> reconcileWithImage d c u ns s
              = (Returned (fst (deleteK8SResources d c u
                                  (GetElaNamespaceName d (Namespace (ObjectMeta u))) s')),
                 snd (deleteK8SResources d c u
                        (GetElaNamespaceName d (Namespace (ObjectMeta u))) s'))))
   \<and> (\<exists>s0 s1 s2 s3 s4 sF u'.
          continues s s0
        \<and> continues (snd (deleteDeployment d c u ns s0)) s1
        \<and> continues (snd (deleteAutoscaler d c u ns s1)) s2
        \<and> continues (snd (deleteNginxConfig d c u ns s2)) s3
        \<and> continues (snd (deleteService d c u ns s3)) s4
        \<and> u' = u\<lparr>Status := (Status u)\<lparr>Conditions := [condition ''Ready'' ''False'' ''Inactive'']\<rparr>\<rparr>
        \<and> deleteK8SResources d c u ns s = (errOf (fst (updateStatus c u' s4)), u', sF)
        \<and> continues (snd (updateStatus c u' s4)) sF)
   \<and> (Objects (World t) (Deployment, ns, GetRevisionDeploymentName e u) = None
      \<longrightarrow> fst (deleteDeployment e storeClient u ns t) = None)
   \<and> (Objects (World t) (HorizontalPodAutoscaler, ns, GetRevisionAutoscalerName e u) = None
      \<longrightarrow> fst (deleteAutoscaler e storeClient u ns t) = None)
   \<and> (Objects (World t) (ConfigMap, ns, GetRevisionNginxConfigMapName e u) = None
      \<longrightarrow> fst (deleteNginxConfig e storeClient u ns t) = None)
   \<and> (Objects (World t) (Service, ns, GetElaK8SServiceNameForRevision e u) = None
      \<longrightarrow> fst (deleteService e storeClient u ns t) = None)
   \<and> (list_all (\<lambda>key. Objects (World t) key = None) (childKeys e u ns)
        \<and> holdsRevision (World t) u
      \<longrightarrow> fst (deleteK8SResources e storeClient u ns t) = None
        \<and> Objects (World (snd (snd (deleteK8SResources e storeClient u ns t))))
          = Objects (World t))"
proof (intro conjI impI)
  assume "DeletionTimestamp (ObjectMeta u) \<noteq> None"
  then show "\<exists>s'. continues s s'
            \<and> reconcileWithImage d c u ns s
              = (Returned (fst (deleteK8SResources d c u
                                  (GetElaNamespaceName d (Namespace (ObjectMeta u))) s')),
                 snd (deleteK8SResources d c u
                        (GetElaNamespaceName d (Namespace (ObjectMeta u))) s'))"
    by (rule reconcileWithImage_delete)
next
  from deleteK8SResources_chain [of s d c u ns]
  show "\<exists>s0 s1 s2 s3 s4 sF u'.
          continues s s0
        \<and> continues (snd (deleteDeployment d c u ns s0)) s1
        \<and> continues (snd (deleteAutoscaler d c u ns s1)) s2
        \<and> continues (snd (deleteNginxConfig d c u ns s2)) s3
        \<and> continues (snd (deleteService d c u ns s3)) s4
        \<and> u' = u\<lparr>Status := (Status u)\<lparr>Conditions := [condition ''Ready'' ''False'' ''Inactive'']\<rparr>\<rparr>
        \<and> deleteK8SResources d c u ns s = (errOf (fst (updateStatus c u' s4)), u', sF)
        \<and> continues (snd (updateStatus c u' s4)) sF"
    by blast
next
  assume "Objects (World t) (Deployment, ns, GetRevisionDeploymentName e u) = None"
  then show "fst (deleteDeployment e storeClient u ns t) = None"
    by (simp add: store_delete_absent(1))
next
  assume "Objects (World t) (HorizontalPodAutoscaler, ns, GetRevisionAutoscalerName e u) = None"
  then show "fst (deleteAutoscaler e storeClient u ns t) = None"
    by (simp add: store_delete_absent(2))
next
  assume "Objects (World t) (ConfigMap, ns, GetRevisionNginxConfigMapName e u) = None"
  then show "fst (deleteNginxConfig e storeClient u ns t) = None"
    by (simp add: store_delete_absent(3))
next
  assume "Objects (World t) (Service, ns, GetElaK8SServiceNameForRevision e u) = None"
  then show "fst (deleteService e storeClient u ns t) = None"
    by (simp add: store_delete_absent(4))
next
  assume h: "list_all (\<lambda>key. Objects (World t) key = None) (childKeys e u ns)
             \<and> holdsRevision (World t) u"
  then show "fst (deleteK8SResources e storeClient u ns t) = None"
    by (simp add: store_deleteK8SResources_clean(1))
  from h show "Objects (World (snd (snd (deleteK8SResources e storeClient u ns t))))
          = Objects (World t)"
    by (simp add: store_deleteK8SResources_clean(2))
qed

text \<open>
  Teardown of \<open>r1\<close> on a store that holds the Revision and none of its children, and
  on a store that holds all four: both return nil, and the second issues the four deletes
  in order.
\<close>

theorem delete_path_witness:
  "DeletionTimestamp (ObjectMeta r1Deleted) \<noteq> None
   \<and> list_all (\<lambda>key. Objects (World (initState (storeWith r1Deleted))) key = None)
       (childKeys exDeps r1Deleted ''ns-ela'')
   \<and> holdsRevision (World (initState (storeWith r1Deleted))) r1Deleted
   \<and> fst (deleteK8SResources exDeps storeClient r1Deleted ''ns-ela''
            (initState (storeWith r1Deleted))) = None
   \<and> fst (reconcileWithImage exDeps storeClient r1Deleted ''ns'' (initState fullStoreDeleted))
     = Returned None
   \<and> deletes (Calls (snd (snd (reconcileWithImage exDeps storeClient r1Deleted ''ns''
                                  (initState fullStoreDeleted)))))
     = [(Deployment, ''ns-ela'', ''r1-dep'', None),
        (HorizontalPodAutoscaler, ''ns-ela'', ''r1-hpa'', None),
        (ConfigMap, ''ns-ela'', ''r1-cm'', None), (Service, ''ns-ela'', ''r1-svc'', None)]
   \<and> Conditions (Status (fst (snd (reconcileWithImage exDeps storeClient r1Deleted ''ns''
                                      (initState fullStoreDeleted)))))
     = [condition ''Ready'' ''False'' ''Inactive'']"
proof -
  have marked: "DeletionTimestamp (ObjectMeta r1Deleted) \<noteq> None"
    by (simp add: r1Deleted_def)
  have absent: "list_all (\<lambda>key. Objects (World (initState (storeWith r1Deleted))) key = None)
       (childKeys exDeps r1Deleted ''ns-ela'')"
    by (simp add: childKeys_def initState_def storeWith_def)
  have held: "holdsRevision (World (initState (storeWith r1Deleted))) r1Deleted"
    by (simp add: holdsRevision_def initState_def storeWith_def)
  from delete_path
         [where u = r1Deleted and s = "initState fullStoreDeleted" and d = exDeps
            and c = storeClient and ns = "''ns-ela''"
            and t = "initState (storeWith r1Deleted)" and e = exDeps]
       absent held
  have clean: "fst (deleteK8SResources exDeps storeClient r1Deleted ''ns-ela''
            (initState (storeWith r1Deleted))) = None"
    by blast
  have full: "fst (reconcileWithImage exDeps storeClient r1Deleted ''ns'' (initState fullStoreDeleted))
     = Returned None
   \<and> deletes (Calls (snd (snd (reconcileWithImage exDeps storeClient r1Deleted ''ns''
                                  (initState fullStoreDeleted)))))
     = [(Deployment, ''ns-ela'', ''r1-dep'', None),
        (HorizontalPodAutoscaler, ''ns-ela'', ''r1-hpa'', None),
        (ConfigMap, ''ns-ela'', ''r1-cm'', None), (Service, ''ns-ela'', ''r1-svc'', None)]
   \<and> Conditions (Status (fst (snd (reconcileWithImage exDeps storeClient r1Deleted ''ns''
                                      (initState fullStoreDeleted)))))
     = [condition ''Ready'' ''False'' ''Inactive'']"
    by (simp add: path_defs op_defs api_defs store_defs payload_defs example_defs
        logPrintf_def Let_def)
  from marked absent held clean full show ?thesis by blast
qed

end
